theory Spec2Isabelle
  imports Main
begin

section \<open>The construct tree\<close>

text \<open>
  A construct is addressed by the identifiers on the way from it up to the root scope,
  innermost first: the child \<open>id\<close> of the scope \<open>p\<close> is \<open>id # p\<close>, the root scope is \<open>[]\<close>.
  Object references of the source (a role handed to a function, a table handed to a grant)
  are these addresses.
\<close>

type_synonym path = "string list"

text \<open>
  Attributes that are only known once a resource is deployed (a table's name, an API's
  identifier) are tokens; a string built from them by a template literal is a list of
  literal pieces and tokens.
\<close>

datatype piece = Lit string | Attr path string

type_synonym tstring = "piece list"

datatype capability = Read | Write

type_synonym statement = "path \<times> capability"

datatype error =
    NameCollision path
  | UnsupportedCapability path
  | NotReady path
  | MultipleDefaultBindings
  | NoDefaultBinding
  | InvalidCacheMethodSubset

datatype time_unit = Seconds | Minutes

datatype duration = Duration nat time_unit

definition Duration_seconds :: "nat \<Rightarrow> duration" where
  "Duration_seconds n = Duration n Seconds"

definition Duration_minutes :: "nat \<Rightarrow> duration" where
  "Duration_minutes n = Duration n Minutes"

subsection \<open>Resource properties\<close>

datatype attribute_type = BINARY | NUMBER | STRING

datatype billing_mode = PAY_PER_REQUEST | PROVISIONED

datatype removal_policy = DESTROY | RETAIN | SNAPSHOT

datatype runtime = PYTHON_3_8 | PYTHON_3_9 | PYTHON_3_10

datatype http_method = GET | POST | PUT | DELETE

record table_props =
  partitionKey :: "string \<times> attribute_type"
  sortKey :: "(string \<times> attribute_type) option"
  billingMode :: "billing_mode option"
  tableName :: "string option"
  removalPolicy :: "removal_policy option"

record role_props =
  roleName :: string
  assumedBy :: string
  description :: string

record function_props =
  role :: path
  functionName :: string
  code :: string
  runtime :: runtime
  handler :: string
  memorySize :: nat
  timeout :: duration
  environment :: "(string \<times> tstring) list"

datatype security_policy = TLS_1_0 | TLS_1_2

datatype authorization_type = NONE | IAM | CUSTOM | COGNITO

record domain_name_options =
  dn_domainName :: string
  dn_certificate :: path
  dn_securityPolicy :: security_policy

record rest_api_props =
  restApiName :: string
  api_description :: string
  domainName :: domain_name_options
  deployOptions_stageName :: string
  defaultMethodOptions_authorizationType :: authorization_type
  endpointExportName :: string

record integration =
  integration_handler :: path
  requestTemplates :: "(string \<times> string) list"

type_synonym api_method = "string \<times> http_method \<times> integration"

datatype certificate_validation = FromDns path | FromEmail

record certificate_props =
  cert_domainName :: string
  validation :: certificate_validation

datatype bucket_encryption = UNENCRYPTED | S3_MANAGED | KMS_MANAGED

datatype block_public_access = BLOCK_ACLS | BLOCK_ALL

record bucket_props =
  versioned :: "bool option"
  encryption :: bucket_encryption
  blockPublicAccess :: block_public_access
  bucketName :: "string option"
  bucket_removalPolicy :: removal_policy

datatype origin_protocol_policy = HTTP_ONLY | MATCH_VIEWER | HTTPS_ONLY

datatype allowed_methods = ALLOWED_GET_HEAD | ALLOWED_GET_HEAD_OPTIONS | ALLOWED_ALL

datatype allowed_cached_methods = CACHED_GET_HEAD | CACHED_GET_HEAD_OPTIONS

record forwarded_values =
  queryString :: bool
  cookies_forward :: string
  headers :: "string list option"

record behavior =
  pathPattern :: "string option"
  isDefaultBehavior :: "bool option"
  allowedMethods :: "allowed_methods option"
  cachedMethods :: "allowed_cached_methods option"
  defaultTtl :: "duration option"
  maxTtl :: "duration option"
  forwardedValues :: "forwarded_values option"

datatype origin_source =
    CustomOriginSource tstring tstring origin_protocol_policy
  | S3OriginSource path path

record source_configuration =
  origin :: origin_source
  behaviors :: "behavior list"

record error_configuration =
  errorCode :: nat
  responseCode :: nat
  responsePagePath :: string

datatype viewer_protocol_policy = ALLOW_ALL | REDIRECT_TO_HTTPS

datatype security_policy_protocol = TLS_V1_2_2019 | TLS_V1_2_2021

record viewer_certificate =
  vc_certificate :: path
  aliases :: "string list"
  vc_securityPolicy :: security_policy_protocol

record logging_config =
  log_bucket :: path
  includeCookies :: bool
  log_prefix :: string

record distribution_props =
  originConfigs :: "source_configuration list"
  defaultRootObject :: string
  errorConfigurations :: "error_configuration list"
  viewerProtocolPolicy :: viewer_protocol_policy
  dist_comment :: string
  viewerCertificate :: viewer_certificate
  loggingConfig :: logging_config

record a_record_props =
  zone :: path
  recordName :: string
  target :: path

datatype resource =
    ConstructR
  | TableR table_props
  | RoleR role_props "statement list"
  | FunctionR function_props
  | RestApiR rest_api_props "api_method list"
  | HostedZoneR string
  | CertificateR certificate_props
  | BucketR bucket_props
  | OriginAccessIdentityR tstring
  | DistributionR distribution_props
  | ARecordR a_record_props

type_synonym tree = "(path \<times> resource) list"

subsection \<open>Construction steps\<close>

text \<open>
  A construction step reads and extends the tree, or throws. A thrown error ends the
  construction: nothing after it runs, and nothing is rolled back, so the error comes with
  the tree as the steps before it left it.
\<close>

type_synonym 'a build = "tree \<Rightarrow> (error \<times> tree) + ('a \<times> tree)"

definition succeed :: "'a \<Rightarrow> 'a build" where
  "succeed x t = Inr (x, t)"

definition and_then :: "'a build \<Rightarrow> ('a \<Rightarrow> 'b build) \<Rightarrow> 'b build" where
  "and_then m f t = (case m t of Inl e \<Rightarrow> Inl e | Inr (x, t') \<Rightarrow> f x t')"

definition materialized :: "(error \<times> tree) + ('a \<times> tree) \<Rightarrow> tree" where
  "materialized r = (case r of Inl (e, t) \<Rightarrow> t | Inr (x, t) \<Rightarrow> t)"


text \<open>
  Modelled from the spec: the constructor of the scoped-node base class (\<open>Construct\<close> of the
  package \<open>constructs\<close>, which every \<open>super(scope, id)\<close> and every \<open>new X(this, id, ...)\<close> of the
  sources reaches; its code is not among the sources). The spec, 4.1:
  \<open>create(parentScope, name, props)\<close>; \<open>name\<close> must be unique among the parent's existing
  children, violation fails with a NameCollision error.
\<close>

definition create_node :: "path \<Rightarrow> string \<Rightarrow> resource \<Rightarrow> path build" where
  "create_node scope id' r t =
     (if id' # scope \<in> set (map fst t) then Inl (NameCollision (id' # scope), t)
      else Inr (id' # scope, t @ [(id' # scope, r)]))"

subsection \<open>Capability grants\<close>

text \<open>
  Modelled from the spec: the capabilities a resource kind supports. The sources grant on
  the table only; the spec names Read and Write for it (4.2) and no capability of any
  other kind.
\<close>

definition supported_capabilities :: "resource \<Rightarrow> capability set" where
  "supported_capabilities r = (case r of TableR _ \<Rightarrow> {Read, Write} | _ \<Rightarrow> {})"

text \<open>
  Modelled from the spec: the statements a capability set needs on an object (4.2: Read and
  Write each stand for the item actions of their kind), and their attachment to a policy,
  where a statement already present is not added again.
\<close>

definition statements_for :: "path \<Rightarrow> capability set \<Rightarrow> statement list" where
  "statements_for object caps = map (Pair object) (filter (\<lambda>c. c \<in> caps) [Read, Write])"

fun add_statements :: "statement list \<Rightarrow> statement list \<Rightarrow> statement list" where
  "add_statements pol [] = pol"
| "add_statements pol (s # ss) = add_statements (if s \<in> set pol then pol else pol @ [s]) ss"

definition attach_policy :: "statement list \<Rightarrow> resource \<Rightarrow> resource" where
  "attach_policy ss r = (case r of RoleR rp pol \<Rightarrow> RoleR rp (add_statements pol ss) | _ \<Rightarrow> r)"

definition update_node :: "path \<Rightarrow> (resource \<Rightarrow> resource) \<Rightarrow> tree \<Rightarrow> tree" where
  "update_node p f t = map (\<lambda>(q, r). if q = p then (q, f r) else (q, r)) t"

definition is_role :: "resource \<Rightarrow> bool" where
  "is_role r = (case r of RoleR _ _ \<Rightarrow> True | _ \<Rightarrow> False)"

text \<open>
  Modelled from the spec: the PermissionGrant resolver behind \<open>Table.grantReadData\<close> and
  \<open>Table.grantWriteData\<close> (package \<open>aws-cdk-lib\<close>; its code is not among the sources). The
  spec, 4.2: \<open>grant(subjectRole, objectHandle, capabilities)\<close>; the object must already be
  materialized; UnsupportedCapability if the resource kind does not support a requested
  capability; the statements needed for the capability set are attached to the subject's
  execution identity, and attaching a grant already present is a no-op, not a duplicate.
\<close>

definition grant :: "path \<Rightarrow> path \<Rightarrow> capability set \<Rightarrow> unit build" where
  "grant subject object caps t =
     (case map_of t object of
        None \<Rightarrow> Inl (NotReady object, t)
      | Some ob \<Rightarrow>
          if \<not> caps \<subseteq> supported_capabilities ob then Inl (UnsupportedCapability object, t)
          else (case map_of t subject of
                  None \<Rightarrow> Inl (NotReady subject, t)
                | Some sb \<Rightarrow>
                    if \<not> is_role sb then Inl (NotReady subject, t)
                    else Inr ((), update_node subject (attach_policy (statements_for object caps)) t)))"

definition grantReadData :: "path \<Rightarrow> path \<Rightarrow> unit build" where
  "grantReadData table grantee = grant grantee table {Read}"

definition grantWriteData :: "path \<Rightarrow> path \<Rightarrow> unit build" where
  "grantWriteData table grantee = grant grantee table {Write}"

subsection \<open>Resource constructors of the library\<close>

definition new_Table :: "path \<Rightarrow> string \<Rightarrow> table_props \<Rightarrow> path build" where
  "new_Table scope id' props = create_node scope id' (TableR props)"

definition new_Role :: "path \<Rightarrow> string \<Rightarrow> role_props \<Rightarrow> path build" where
  "new_Role scope id' props = create_node scope id' (RoleR props [])"

definition new_Function :: "path \<Rightarrow> string \<Rightarrow> function_props \<Rightarrow> path build" where
  "new_Function scope id' props = create_node scope id' (FunctionR props)"

definition new_RestApi :: "path \<Rightarrow> string \<Rightarrow> rest_api_props \<Rightarrow> path build" where
  "new_RestApi scope id' props = create_node scope id' (RestApiR props [])"

definition HostedZone_fromLookup :: "path \<Rightarrow> string \<Rightarrow> string \<Rightarrow> path build" where
  "HostedZone_fromLookup scope id' domain = create_node scope id' (HostedZoneR domain)"

definition new_Certificate :: "path \<Rightarrow> string \<Rightarrow> certificate_props \<Rightarrow> path build" where
  "new_Certificate scope id' props = create_node scope id' (CertificateR props)"

definition new_Bucket :: "path \<Rightarrow> string \<Rightarrow> bucket_props \<Rightarrow> path build" where
  "new_Bucket scope id' props = create_node scope id' (BucketR props)"

definition new_OriginAccessIdentity :: "path \<Rightarrow> string \<Rightarrow> tstring \<Rightarrow> path build" where
  "new_OriginAccessIdentity scope id' comment = create_node scope id' (OriginAccessIdentityR comment)"

definition new_CloudFrontWebDistribution ::
    "path \<Rightarrow> string \<Rightarrow> distribution_props \<Rightarrow> path build" where
  "new_CloudFrontWebDistribution scope id' props = create_node scope id' (DistributionR props)"

definition new_ARecord :: "path \<Rightarrow> string \<Rightarrow> a_record_props \<Rightarrow> path build" where
  "new_ARecord scope id' props = create_node scope id' (ARecordR props)"

text \<open>
  \<open>root.resourceForPath(p).addMethod(m, integration)\<close> of a REST API: the API keeps the
  methods registered on it, with their paths, in the order of registration.
\<close>

definition add_method :: "api_method \<Rightarrow> resource \<Rightarrow> resource" where
  "add_method m r = (case r of RestApiR props ms \<Rightarrow> RestApiR props (ms @ [m]) | _ \<Rightarrow> r)"

definition resourceForPath_addMethod ::
    "path \<Rightarrow> string \<Rightarrow> http_method \<Rightarrow> integration \<Rightarrow> unit build" where
  "resourceForPath_addMethod api p m i t = Inr ((), update_node api (add_method (p, m, i)) t)"

definition bucket_bucketArn :: "path \<Rightarrow> tstring" where
  "bucket_bucketArn bucket = [Attr bucket ''bucketArn'']"

definition table_tableName :: "path \<Rightarrow> tstring" where
  "table_tableName table = [Attr table ''tableName'']"

section \<open>CRUDConstruct (lib/crud-construct.ts)\<close>

record CRUDConstructProps =
  tableId :: string
  table :: table_props
  lambdaPrefixId :: string
  lambdaPackage :: string

record CRUDConstruct =
  priv_table :: path
  priv_getLambda :: path
  priv_updateLambda :: path
  priv_createLambda :: path
  priv_deleteLambda :: path

record crud_roles =
  createRole :: path
  updateRole :: path
  getRole :: path
  deleteRole :: path

definition lambda_function_props ::
    "string \<Rightarrow> string \<Rightarrow> string \<Rightarrow> tstring \<Rightarrow> path \<Rightarrow> function_props" where
  "lambda_function_props lambdaPrefixId' lambdaPackageName fnNamePrefix tableName' role' =
     \<lparr>role = role',
      functionName = fnNamePrefix @ ''-'' @ lambdaPrefixId',
      code = ''resources'',
      runtime = PYTHON_3_9,
      handler = lambdaPackageName @ ''.'' @ fnNamePrefix @ ''_'' @ lambdaPrefixId',
      memorySize = 128,
      timeout = Duration_seconds 30,
      environment = [(''TODO_DATABASE'', tableName')]\<rparr>"

definition createLambdas ::
    "path \<Rightarrow> string \<Rightarrow> string \<Rightarrow> string \<Rightarrow> tstring \<Rightarrow> path \<Rightarrow> path build" where
  "createLambdas this lambdaPrefixId' lambdaPackageName fnNamePrefix tableName' role' =
     new_Function this (fnNamePrefix @ ''-'' @ lambdaPrefixId')
       (lambda_function_props lambdaPrefixId' lambdaPackageName fnNamePrefix tableName' role')"

definition lambda_role_props :: "string \<Rightarrow> role_props" where
  "lambda_role_props name =
     \<lparr>roleName = name,
      assumedBy = ''lambda.amazonaws.com'',
      description = ''Allow lambda to call dynamodb tables''\<rparr>"

definition createLambdaRoles :: "path \<Rightarrow> string \<Rightarrow> path \<Rightarrow> crud_roles build" where
  "createLambdaRoles this lambdaPrefixId' table' =
     and_then (new_Role this (''Get'' @ lambdaPrefixId' @ ''-Role'')
                 (lambda_role_props (''get-'' @ lambdaPrefixId' @ ''-role''))) (\<lambda>getLambdaRole.
     and_then (grantReadData table' getLambdaRole) (\<lambda>_.
     and_then (new_Role this (''Create'' @ lambdaPrefixId' @ ''-Role'')
                 (lambda_role_props (''create-'' @ lambdaPrefixId' @ ''-role''))) (\<lambda>createLambdaRole.
     and_then (grantWriteData table' createLambdaRole) (\<lambda>_.
     and_then (new_Role this (''Update'' @ lambdaPrefixId' @ ''-Role'')
                 (lambda_role_props (''update-'' @ lambdaPrefixId' @ ''-role''))) (\<lambda>updateLambdaRole.
     and_then (grantWriteData table' updateLambdaRole) (\<lambda>_.
     and_then (new_Role this (''Delete'' @ lambdaPrefixId' @ ''-Role'')
                 (lambda_role_props (''delete-'' @ lambdaPrefixId' @ ''-role''))) (\<lambda>deleteLambdaRole.
     and_then (grantWriteData table' deleteLambdaRole) (\<lambda>_.
     succeed \<lparr>createRole = createLambdaRole,
              updateRole = updateLambdaRole,
              getRole = getLambdaRole,
              deleteRole = deleteLambdaRole\<rparr>))))))))"

definition CRUDConstruct_new :: "path \<Rightarrow> string \<Rightarrow> CRUDConstructProps \<Rightarrow> CRUDConstruct build" where
  "CRUDConstruct_new scope id' props =
     and_then (create_node scope id' ConstructR) (\<lambda>this.
     and_then (new_Table this (tableId props) (table props)) (\<lambda>table'.
     and_then (createLambdaRoles this (lambdaPrefixId props) table') (\<lambda>roles.
     and_then (createLambdas this (lambdaPrefixId props) (lambdaPackage props) ''create''
                 (table_tableName table') (createRole roles)) (\<lambda>createLambda.
     and_then (createLambdas this (lambdaPrefixId props) (lambdaPackage props) ''update''
                 (table_tableName table') (updateRole roles)) (\<lambda>updateLambda.
     and_then (createLambdas this (lambdaPrefixId props) (lambdaPackage props) ''delete''
                 (table_tableName table') (deleteRole roles)) (\<lambda>deleteLambda.
     and_then (createLambdas this (lambdaPrefixId props) (lambdaPackage props) ''get''
                 (table_tableName table') (getRole roles)) (\<lambda>getLambda.
     succeed \<lparr>priv_table = table',
              priv_getLambda = getLambda,
              priv_updateLambda = updateLambda,
              priv_createLambda = createLambda,
              priv_deleteLambda = deleteLambda\<rparr>)))))))"

definition GetLambda :: "CRUDConstruct \<Rightarrow> path" where
  "GetLambda this = priv_getLambda this"

definition UpdateLambda :: "CRUDConstruct \<Rightarrow> path" where
  "UpdateLambda this = priv_updateLambda this"

definition DeleteLambda :: "CRUDConstruct \<Rightarrow> path" where
  "DeleteLambda this = priv_deleteLambda this"

definition CreateLambda :: "CRUDConstruct \<Rightarrow> path" where
  "CreateLambda this = priv_createLambda this"

section \<open>ApiGatewayLambdaConstruct (lib/api-gateway-lambda-construct.ts)\<close>

record ApiGatewayLambdaConstructProps =
  apiId :: string
  restApiProps :: rest_api_props
  urlSuffix :: tstring
  region :: tstring

record ApiGatewayLambdaConstruct =
  priv_apiEndpoint :: path
  priv_urlSuffix :: tstring
  priv_region :: tstring

record lambda_api =
  api_name :: string
  api_fn :: path
  api_type :: http_method

definition ApiGatewayLambdaConstruct_new ::
    "path \<Rightarrow> string \<Rightarrow> ApiGatewayLambdaConstructProps \<Rightarrow> ApiGatewayLambdaConstruct build" where
  "ApiGatewayLambdaConstruct_new scope id' props =
     and_then (create_node scope id' ConstructR) (\<lambda>this.
     and_then (new_RestApi this ''static-website-api'' (restApiProps props)) (\<lambda>api.
     succeed \<lparr>priv_apiEndpoint = api,
              priv_urlSuffix = urlSuffix props,
              priv_region = region props\<rparr>))"

definition ApiEndpoint :: "ApiGatewayLambdaConstruct \<Rightarrow> tstring" where
  "ApiEndpoint this =
     [Attr (priv_apiEndpoint this) ''restApiId'', Lit ''.execute-api.''] @ priv_region this
       @ [Lit ''.''] @ priv_urlSuffix this"

definition StageName :: "ApiGatewayLambdaConstruct \<Rightarrow> tstring" where
  "StageName this = [Attr (priv_apiEndpoint this) ''deploymentStage.stageName'']"

definition addLambdaIntegration :: "ApiGatewayLambdaConstruct \<Rightarrow> lambda_api \<Rightarrow> unit build" where
  \<open>addLambdaIntegration this lambda =
     resourceForPath_addMethod (priv_apiEndpoint this) (''/api/'' @ api_name lambda)
       (api_type lambda)
       \<lparr>integration_handler = api_fn lambda,
        requestTemplates = [(''application/json'', ''{"statusCode": "200"'')]\<rparr>\<close>

section \<open>StaticWebsiteStack (lib/static_website-stack.ts)\<close>

fun forEach :: "'a list \<Rightarrow> ('a \<Rightarrow> unit build) \<Rightarrow> unit build" where
  "forEach [] f = succeed ()"
| "forEach (x # xs) f = and_then (f x) (\<lambda>_. forEach xs f)"

definition lambdaApis :: "CRUDConstruct \<Rightarrow> lambda_api list" where
  "lambdaApis todosCRUD =
     [\<lparr>api_name = ''getTodos'', api_fn = GetLambda todosCRUD, api_type = GET\<rparr>,
      \<lparr>api_name = ''createTodo'', api_fn = CreateLambda todosCRUD, api_type = POST\<rparr>,
      \<lparr>api_name = ''updateTodo'', api_fn = UpdateLambda todosCRUD, api_type = PUT\<rparr>,
      \<lparr>api_name = ''deleteTodo'', api_fn = DeleteLambda todosCRUD, api_type = DELETE\<rparr>]"

definition originsAndBehavior ::
    "ApiGatewayLambdaConstruct \<Rightarrow> path \<Rightarrow> path \<Rightarrow> source_configuration list" where
  "originsAndBehavior restApi staticAssetsBucket accessIdentity =
     [\<lparr>origin = CustomOriginSource (ApiEndpoint restApi) ([Lit ''/''] @ StageName restApi) HTTPS_ONLY,
       behaviors =
         [\<lparr>pathPattern = Some ''/api/*'',
           isDefaultBehavior = None,
           allowedMethods = Some ALLOWED_ALL,
           cachedMethods = Some CACHED_GET_HEAD_OPTIONS,
           defaultTtl = Some (Duration_minutes 0),
           maxTtl = None,
           forwardedValues = Some
             \<lparr>queryString = True,
              cookies_forward = ''none'',
              headers = Some [''Authorization'', ''user'', ''x-forwarded-user'', ''Accept'',
                ''Referer'', ''Content-Type'', ''Access-Control-Request-Headers'',
                ''Access-Control-Request-Method'', ''Origin'']\<rparr>\<rparr>]\<rparr>,
      \<lparr>origin = S3OriginSource staticAssetsBucket accessIdentity,
       behaviors =
         [\<lparr>pathPattern = None,
           isDefaultBehavior = Some True,
           allowedMethods = Some ALLOWED_ALL,
           cachedMethods = None,
           defaultTtl = Some (Duration_minutes 3),
           maxTtl = Some (Duration_minutes 5),
           forwardedValues = Some
             \<lparr>queryString = True, cookies_forward = ''all'', headers = None\<rparr>\<rparr>]\<rparr>]"

text \<open>
  The constructor of the stack. Its optional \<open>props\<close> go to the base class unread, so the
  model leaves them out; \<open>this.region\<close> and \<open>this.urlSuffix\<close> are tokens of the stack.
\<close>

definition StaticWebsiteStack_new :: "path \<Rightarrow> string \<Rightarrow> path build" where
  "StaticWebsiteStack_new scope id' =
     and_then (create_node scope id' ConstructR) (\<lambda>this.
     and_then (HostedZone_fromLookup this ''Static-Website-HostedZone'' ''<enter domain name>'')
       (\<lambda>hostedZone.
     and_then (new_Certificate this ''StaticWebsite-Cert''
                 \<lparr>cert_domainName = ''<enter domain name>'', validation = FromDns hostedZone\<rparr>)
       (\<lambda>cert.
     and_then (ApiGatewayLambdaConstruct_new this ''RestApiG8WayLambda''
                 \<lparr>apiId = ''static-website'',
                  restApiProps =
                    \<lparr>restApiName = ''StaticWebsiteAPI'',
                     api_description = ''This is an api for testing static website apis'',
                     domainName =
                       \<lparr>dn_domainName = ''<enter domain name>'',
                        dn_certificate = cert,
                        dn_securityPolicy = TLS_1_2\<rparr>,
                     deployOptions_stageName = ''prod'',
                     defaultMethodOptions_authorizationType = NONE,
                     endpointExportName = ''StaticWebsiteAPI''\<rparr>,
                  urlSuffix = [Attr this ''urlSuffix''],
                  region = [Attr this ''region'']\<rparr>)
       (\<lambda>restApi.
     and_then (CRUDConstruct_new this ''TODOS-CRUD''
                 \<lparr>tableId = ''Todos-Table'',
                  table =
                    \<lparr>partitionKey = (''user_id'', STRING),
                     sortKey = Some (''id'', STRING),
                     billingMode = Some PAY_PER_REQUEST,
                     tableName = Some ''todos-table'',
                     removalPolicy = Some DESTROY\<rparr>,
                  lambdaPrefixId = ''todos'',
                  lambdaPackage = ''index''\<rparr>)
       (\<lambda>todosCRUD.
     and_then (forEach (lambdaApis todosCRUD) (addLambdaIntegration restApi)) (\<lambda>_.
     and_then (new_Bucket this ''<enter s3 bucket name>''
                 \<lparr>versioned = Some False,
                  encryption = S3_MANAGED,
                  blockPublicAccess = BLOCK_ALL,
                  bucketName = Some ''<enter s3 bucket name>'',
                  bucket_removalPolicy = DESTROY\<rparr>)
       (\<lambda>staticAssetsBucket.
     and_then (new_Bucket this ''StaticWebsiteLoggingBucket''
                 \<lparr>versioned = None,
                  encryption = S3_MANAGED,
                  blockPublicAccess = BLOCK_ALL,
                  bucketName = None,
                  bucket_removalPolicy = DESTROY\<rparr>)
       (\<lambda>loggingBucket.
     and_then (new_OriginAccessIdentity this ''OriginAccessIdentity''
                 ([Lit ''Read access to cloudfront for ''] @ bucket_bucketArn staticAssetsBucket))
       (\<lambda>accessIdentity.
     and_then (new_CloudFrontWebDistribution this ''Static-Website-Distribution''
                 \<lparr>originConfigs = originsAndBehavior restApi staticAssetsBucket accessIdentity,
                  defaultRootObject = ''index.html'',
                  errorConfigurations =
                    [\<lparr>errorCode = 404, responseCode = 200, responsePagePath = ''/index.html''\<rparr>,
                     \<lparr>errorCode = 403, responseCode = 200, responsePagePath = ''/index.html''\<rparr>],
                  viewerProtocolPolicy = REDIRECT_TO_HTTPS,
                  dist_comment = ''CloudFront distribution to the static website'',
                  viewerCertificate =
                    \<lparr>vc_certificate = cert,
                     aliases = [''<enter domain name>''],
                     vc_securityPolicy = TLS_V1_2_2021\<rparr>,
                  loggingConfig =
                    \<lparr>log_bucket = loggingBucket,
                     includeCookies = False,
                     log_prefix = ''static-website-cf-logs-''\<rparr>\<rparr>)
       (\<lambda>distribution.
     and_then (new_ARecord this ''CloudFrontAliasRecord''
                 \<lparr>zone = hostedZone, recordName = ''<enter domain name>'', target = distribution\<rparr>)
       (\<lambda>_.
     succeed this)))))))))))"

section \<open>Reading the assembled tree\<close>

fun functions_of :: "tree \<Rightarrow> (path \<times> function_props) list" where
  "functions_of [] = []"
| "functions_of ((p, FunctionR f) # t) = (p, f) # functions_of t"
| "functions_of (x # t) = functions_of t"

fun roles_of :: "tree \<Rightarrow> path list" where
  "roles_of [] = []"
| "roles_of ((p, RoleR rp pol) # t) = p # roles_of t"
| "roles_of (x # t) = roles_of t"

fun grants_of :: "tree \<Rightarrow> (path \<times> statement) list" where
  "grants_of [] = []"
| "grants_of ((p, RoleR rp pol) # t) = map (Pair p) pol @ grants_of t"
| "grants_of (x # t) = grants_of t"

text \<open>The nodes a CRUDConstruct leaves in the tree, in the order of their creation.\<close>

definition crud_nodes :: "path \<Rightarrow> CRUDConstructProps \<Rightarrow> tree" where
  "crud_nodes this props =
     (let pfx = lambdaPrefixId props;
          pkg = lambdaPackage props;
          tbl = tableId props # this;
          getR = (''Get'' @ pfx @ ''-Role'') # this;
          createR = (''Create'' @ pfx @ ''-Role'') # this;
          updateR = (''Update'' @ pfx @ ''-Role'') # this;
          deleteR = (''Delete'' @ pfx @ ''-Role'') # this
      in [(this, ConstructR),
          (tbl, TableR (table props)),
          (getR, RoleR (lambda_role_props (''get-'' @ pfx @ ''-role'')) [(tbl, Read)]),
          (createR, RoleR (lambda_role_props (''create-'' @ pfx @ ''-role'')) [(tbl, Write)]),
          (updateR, RoleR (lambda_role_props (''update-'' @ pfx @ ''-role'')) [(tbl, Write)]),
          (deleteR, RoleR (lambda_role_props (''delete-'' @ pfx @ ''-role'')) [(tbl, Write)]),
          ((''create-'' @ pfx) # this,
             FunctionR (lambda_function_props pfx pkg ''create'' (table_tableName tbl) createR)),
          ((''update-'' @ pfx) # this,
             FunctionR (lambda_function_props pfx pkg ''update'' (table_tableName tbl) updateR)),
          ((''delete-'' @ pfx) # this,
             FunctionR (lambda_function_props pfx pkg ''delete'' (table_tableName tbl) deleteR)),
          ((''get-'' @ pfx) # this,
             FunctionR (lambda_function_props pfx pkg ''get'' (table_tableName tbl) getR))])"

definition api_methods :: "tree \<Rightarrow> path \<Rightarrow> api_method list" where
  "api_methods t api = (case map_of t api of Some (RestApiR props ms) \<Rightarrow> ms | _ \<Rightarrow> [])"

definition distribution_at :: "tree \<Rightarrow> path \<Rightarrow> distribution_props option" where
  "distribution_at t p = (case map_of t p of Some (DistributionR d) \<Rightarrow> Some d | _ \<Rightarrow> None)"

definition routing_table :: "source_configuration list \<Rightarrow> (origin_source \<times> behavior) list" where
  "routing_table cfgs = concat (map (\<lambda>c. map (Pair (origin c)) (behaviors c)) cfgs)"

definition is_default :: "origin_source \<times> behavior \<Rightarrow> bool" where
  "is_default b = (isDefaultBehavior (snd b) = Some True)"

subsection \<open>The routing composer\<close>

type_synonym route_binding = "origin_source \<times> behavior"

datatype cf_method = CF_GET | CF_HEAD | CF_OPTIONS | CF_PUT | CF_PATCH | CF_POST | CF_DELETE

text \<open>
  Modelled from the spec: the method sets of a binding (3: allowed-method set and
  cached-method subset). The enumerations of the library name their members; a set the
  source leaves out is read as empty.
\<close>

definition allowed_set :: "route_binding \<Rightarrow> cf_method set" where
  "allowed_set b =
     (case allowedMethods (snd b) of
        None \<Rightarrow> {}
      | Some ALLOWED_GET_HEAD \<Rightarrow> {CF_GET, CF_HEAD}
      | Some ALLOWED_GET_HEAD_OPTIONS \<Rightarrow> {CF_GET, CF_HEAD, CF_OPTIONS}
      | Some ALLOWED_ALL \<Rightarrow> {CF_GET, CF_HEAD, CF_OPTIONS, CF_PUT, CF_PATCH, CF_POST, CF_DELETE})"

definition cached_set :: "route_binding \<Rightarrow> cf_method set" where
  "cached_set b =
     (case cachedMethods (snd b) of
        None \<Rightarrow> {}
      | Some CACHED_GET_HEAD \<Rightarrow> {CF_GET, CF_HEAD}
      | Some CACHED_GET_HEAD_OPTIONS \<Rightarrow> {CF_GET, CF_HEAD, CF_OPTIONS})"

definition pattern_of :: "route_binding \<Rightarrow> string" where
  "pattern_of b = (case pathPattern (snd b) of None \<Rightarrow> [] | Some p \<Rightarrow> p)"

fun lex_le :: "string \<Rightarrow> string \<Rightarrow> bool" where
  "lex_le [] ys = True"
| "lex_le (x # xs) [] = False"
| "lex_le (x # xs) (y # ys) =
     ((of_char x :: nat) < of_char y \<or> (x = y \<and> lex_le xs ys))"

text \<open>
  Modelled from the spec: the order of the specific bindings (4.3: descending pattern
  specificity, a stable sort by pattern length, then lexicographic).
\<close>

definition more_specific :: "route_binding \<Rightarrow> route_binding \<Rightarrow> bool" where
  "more_specific a b =
     (length (pattern_of b) < length (pattern_of a)
      \<or> (length (pattern_of a) = length (pattern_of b) \<and> lex_le (pattern_of a) (pattern_of b)))"

fun insert_binding :: "route_binding \<Rightarrow> route_binding list \<Rightarrow> route_binding list" where
  "insert_binding x [] = [x]"
| "insert_binding x (y # ys) =
     (if more_specific x y then x # y # ys else y # insert_binding x ys)"

fun sort_bindings :: "route_binding list \<Rightarrow> route_binding list" where
  "sort_bindings [] = []"
| "sort_bindings (x # xs) = insert_binding x (sort_bindings xs)"

text \<open>
  Modelled from the spec: the RoutingComposer behind \<open>CloudFrontWebDistribution\<close> (package
  \<open>aws-cdk-lib\<close>; its code is not among the sources). The spec, 4.3:
  \<open>compose(bindings)\<close> partitions the bindings into the specific ones and the default,
  orders the specific ones by descending specificity and appends the default last; it
  fails with MultipleDefaultBindings if more than one binding is marked default, with
  NoDefaultBinding if none is, and with InvalidCacheMethodSubset if the cached methods of
  a binding are not among its allowed methods.
\<close>

definition compose :: "route_binding list \<Rightarrow> error + route_binding list" where
  "compose bindings =
     (case filter is_default bindings of
        [] \<Rightarrow> Inl NoDefaultBinding
      | [d] \<Rightarrow>
          if list_ex (\<lambda>b. \<not> cached_set b \<subseteq> allowed_set b) bindings
          then Inl InvalidCacheMethodSubset
          else Inr (sort_bindings (filter (\<lambda>b. \<not> is_default b) bindings) @ [d])
      | d # d' # ds \<Rightarrow> Inl MultipleDefaultBindings)"

definition assembled :: "string \<Rightarrow> tree" where
  "assembled i = materialized (StaticWebsiteStack_new [] i [])"

definition distribution_routing_table :: "tree \<Rightarrow> path \<Rightarrow> (origin_source \<times> behavior) list" where
  "distribution_routing_table t p =
     (case distribution_at t p of None \<Rightarrow> [] | Some d \<Rightarrow> routing_table (originConfigs d))"


subsection \<open>Example inputs\<close>

text \<open>The properties the stack hands to its CRUD construct.\<close>

definition example_crud_props :: CRUDConstructProps where
  "example_crud_props =
     \<lparr>tableId = ''Todos-Table'',
      table =
        \<lparr>partitionKey = (''user_id'', STRING),
         sortKey = Some (''id'', STRING),
         billingMode = Some PAY_PER_REQUEST,
         tableName = Some ''todos-table'',
         removalPolicy = Some DESTROY\<rparr>,
      lambdaPrefixId = ''todos'',
      lambdaPackage = ''index''\<rparr>"

text \<open>Properties of a REST API, a table and a role, and a small tree to grant in.\<close>

definition example_rest_api_props :: rest_api_props where
  "example_rest_api_props =
     \<lparr>restApiName = ''StaticWebsiteAPI'',
      api_description = ''This is an api for testing static website apis'',
      domainName =
        \<lparr>dn_domainName = ''<enter domain name>'',
         dn_certificate = [''StaticWebsite-Cert''],
         dn_securityPolicy = TLS_1_2\<rparr>,
      deployOptions_stageName = ''prod'',
      defaultMethodOptions_authorizationType = NONE,
      endpointExportName = ''StaticWebsiteAPI''\<rparr>"

definition example_table_props :: table_props where
  "example_table_props =
     \<lparr>partitionKey = (''user_id'', STRING),
      sortKey = Some (''id'', STRING),
      billingMode = Some PAY_PER_REQUEST,
      tableName = Some ''todos-table'',
      removalPolicy = Some DESTROY\<rparr>"

definition example_role_props :: role_props where
  "example_role_props = lambda_role_props ''get-todos-role''"

definition example_tree :: tree where
  "example_tree =
     [([''Todos-Table''], TableR example_table_props),
      ([''Gettodos-Role''], RoleR example_role_props []),
      ([''Createtodos-Role''], RoleR (lambda_role_props ''create-todos-role'') [([''Todos-Table''], Write)]),
      ([''static-website-api''], RestApiR example_rest_api_props [])]"

text \<open>Three bindings out of order: the default first, then a short and a long pattern.\<close>

definition example_bindings :: "route_binding list" where
  "example_bindings =
     [(S3OriginSource [''bucket''] [''identity''],
        \<lparr>pathPattern = None, isDefaultBehavior = Some True, allowedMethods = Some ALLOWED_ALL,
         cachedMethods = None, defaultTtl = None, maxTtl = None, forwardedValues = None\<rparr>),
      (CustomOriginSource [Lit ''a.example''] [] HTTPS_ONLY,
        \<lparr>pathPattern = Some ''/a/*'', isDefaultBehavior = None,
         allowedMethods = Some ALLOWED_GET_HEAD, cachedMethods = Some CACHED_GET_HEAD,
         defaultTtl = None, maxTtl = None, forwardedValues = None\<rparr>),
      (CustomOriginSource [Lit ''api.example''] [] HTTPS_ONLY,
        \<lparr>pathPattern = Some ''/api/*'', isDefaultBehavior = None,
         allowedMethods = Some ALLOWED_ALL, cachedMethods = Some CACHED_GET_HEAD_OPTIONS,
         defaultTtl = None, maxTtl = None, forwardedValues = None\<rparr>)]"

section \<open>Construction steps, step by step\<close>

lemma and_then_Inr_iff:
  "and_then m f t = Inr r \<longleftrightarrow> (\<exists>x t'. m t = Inr (x, t') \<and> f x t' = Inr r)"
  by (auto simp: and_then_def split: sum.splits)

lemma create_node_Inr_iff:
  "create_node scope i r t = Inr (p, t') \<longleftrightarrow>
     p = i # scope \<and> i # scope \<notin> fst ` set t \<and> t' = t @ [(i # scope, r)]"
  by (auto simp: create_node_def)

lemma update_node_absent: "p \<notin> fst ` set t \<Longrightarrow> update_node p f t = t"
  by (induction t) (auto simp: update_node_def)

lemma update_node_last:
  "p \<notin> fst ` set t \<Longrightarrow> update_node p f (t @ [(p, r)]) = t @ [(p, f r)]"
  using update_node_absent [of p t f] by (simp add: update_node_def)

lemma map_of_append_fresh:
  "p \<notin> fst ` set t \<Longrightarrow> map_of (t @ [(p, r)]) p = Some r"
proof -
  assume "p \<notin> fst ` set t"
  then have "map_of t p = None" by (simp add: map_of_eq_None_iff)
  then show ?thesis by (simp add: map_add_def)
qed

lemma map_of_append_old:
  "map_of t q = Some r \<Longrightarrow> map_of (t @ d) q = Some r"
  by (simp add: map_add_def)

lemma grant_fresh_role:
  assumes "map_of t tb = Some (TableR tp)" and "r \<notin> fst ` set t"
  shows "grant r tb {c} (t @ [(r, RoleR rp [])]) = Inr ((), t @ [(r, RoleR rp [(tb, c)])])"
proof -
  have 1: "map_of (t @ [(r, RoleR rp [])]) tb = Some (TableR tp)"
    using assms(1) by (rule map_of_append_old)
  have 2: "map_of (t @ [(r, RoleR rp [])]) r = Some (RoleR rp [])"
    using assms(2) by (rule map_of_append_fresh)
  have 3: "statements_for tb {c} = [(tb, c)]"
    by (cases c) (simp_all add: statements_for_def)
  have 4: "{c} \<subseteq> supported_capabilities (TableR tp)"
    by (cases c) (simp_all add: supported_capabilities_def)
  show ?thesis
    unfolding grant_def 1 2 using 4
    by (simp add: is_role_def 3 update_node_last [OF assms(2)] attach_policy_def)
qed

lemma new_role_granted:
  assumes tb: "map_of t tb = Some (TableR tp)"
    and run: "and_then (new_Role this i rp) (\<lambda>r. and_then (grant r tb {c}) (\<lambda>_. k r)) t = Inr res"
  shows "i # this \<notin> fst ` set t \<and> k (i # this) (t @ [(i # this, RoleR rp [(tb, c)])]) = Inr res"
proof -
  from run obtain r t1 where a: "new_Role this i rp t = Inr (r, t1)"
    and b: "and_then (grant r tb {c}) (\<lambda>_. k r) t1 = Inr res"
    by (auto simp: and_then_Inr_iff)
  from a have r: "r = i # this" and fresh: "i # this \<notin> fst ` set t"
    and t1: "t1 = t @ [(i # this, RoleR rp [])]"
    by (simp_all add: new_Role_def create_node_Inr_iff)
  have "grant r tb {c} t1 = Inr ((), t @ [(i # this, RoleR rp [(tb, c)])])"
    unfolding r t1 using tb fresh by (rule grant_fresh_role)
  with b have "k r (t @ [(i # this, RoleR rp [(tb, c)])]) = Inr res"
    by (simp add: and_then_def)
  with fresh r show ?thesis by simp
qed

lemma createLambdaRoles_tree:
  assumes tb: "map_of t tb = Some (TableR tp)"
    and run: "createLambdaRoles this pfx tb t = Inr (roles, t')"
  shows "t' = t @
      [((''Get'' @ pfx @ ''-Role'') # this,
          RoleR (lambda_role_props (''get-'' @ pfx @ ''-role'')) [(tb, Read)]),
       ((''Create'' @ pfx @ ''-Role'') # this,
          RoleR (lambda_role_props (''create-'' @ pfx @ ''-role'')) [(tb, Write)]),
       ((''Update'' @ pfx @ ''-Role'') # this,
          RoleR (lambda_role_props (''update-'' @ pfx @ ''-role'')) [(tb, Write)]),
       ((''Delete'' @ pfx @ ''-Role'') # this,
          RoleR (lambda_role_props (''delete-'' @ pfx @ ''-role'')) [(tb, Write)])]"
    and "roles = \<lparr>createRole = (''Create'' @ pfx @ ''-Role'') # this,
                  updateRole = (''Update'' @ pfx @ ''-Role'') # this,
                  getRole = (''Get'' @ pfx @ ''-Role'') # this,
                  deleteRole = (''Delete'' @ pfx @ ''-Role'') # this\<rparr>"
    and "(''Get'' @ pfx @ ''-Role'') # this \<notin> fst ` set t"
    and "(''Create'' @ pfx @ ''-Role'') # this \<notin> fst ` set t"
    and "(''Update'' @ pfx @ ''-Role'') # this \<notin> fst ` set t"
    and "(''Delete'' @ pfx @ ''-Role'') # this \<notin> fst ` set t"
proof -
  note run' = run [unfolded createLambdaRoles_def grantReadData_def grantWriteData_def]
  note s1 = new_role_granted [OF tb run']
  note tb1 = map_of_append_old [OF tb]
  note s2 = new_role_granted [OF tb1 conjunct2 [OF s1]]
  note tb2 = map_of_append_old [OF tb1]
  note s3 = new_role_granted [OF tb2 conjunct2 [OF s2]]
  note tb3 = map_of_append_old [OF tb2]
  note s4 = new_role_granted [OF tb3 conjunct2 [OF s3]]
  from conjunct2 [OF s4] show "t' = t @
      [((''Get'' @ pfx @ ''-Role'') # this,
          RoleR (lambda_role_props (''get-'' @ pfx @ ''-role'')) [(tb, Read)]),
       ((''Create'' @ pfx @ ''-Role'') # this,
          RoleR (lambda_role_props (''create-'' @ pfx @ ''-role'')) [(tb, Write)]),
       ((''Update'' @ pfx @ ''-Role'') # this,
          RoleR (lambda_role_props (''update-'' @ pfx @ ''-role'')) [(tb, Write)]),
       ((''Delete'' @ pfx @ ''-Role'') # this,
          RoleR (lambda_role_props (''delete-'' @ pfx @ ''-role'')) [(tb, Write)])]"
    by (simp add: succeed_def)
  from conjunct2 [OF s4] show "roles = \<lparr>createRole = (''Create'' @ pfx @ ''-Role'') # this,
                  updateRole = (''Update'' @ pfx @ ''-Role'') # this,
                  getRole = (''Get'' @ pfx @ ''-Role'') # this,
                  deleteRole = (''Delete'' @ pfx @ ''-Role'') # this\<rparr>"
    by (simp add: succeed_def)
  from conjunct1 [OF s1] show "(''Get'' @ pfx @ ''-Role'') # this \<notin> fst ` set t" .
  from conjunct1 [OF s2] show "(''Create'' @ pfx @ ''-Role'') # this \<notin> fst ` set t" by simp
  from conjunct1 [OF s3] show "(''Update'' @ pfx @ ''-Role'') # this \<notin> fst ` set t" by simp
  from conjunct1 [OF s4] show "(''Delete'' @ pfx @ ''-Role'') # this \<notin> fst ` set t" by simp
qed

lemma CRUDConstruct_new_tree:
  assumes run: "CRUDConstruct_new scope i props t = Inr (crud, t')"
  shows "t' = t @ crud_nodes (i # scope) props"
    and "crud = \<lparr>priv_table = tableId props # i # scope,
                 priv_getLambda = (''get-'' @ lambdaPrefixId props) # i # scope,
                 priv_updateLambda = (''update-'' @ lambdaPrefixId props) # i # scope,
                 priv_createLambda = (''create-'' @ lambdaPrefixId props) # i # scope,
                 priv_deleteLambda = (''delete-'' @ lambdaPrefixId props) # i # scope\<rparr>"
    and "fst ` set (crud_nodes (i # scope) props) \<inter> fst ` set t = {}"
proof -
  from run obtain this t1 where a: "create_node scope i ConstructR t = Inr (this, t1)"
    and r1: "and_then (new_Table this (tableId props) (table props)) (\<lambda>table'.
     and_then (createLambdaRoles this (lambdaPrefixId props) table') (\<lambda>roles.
     and_then (createLambdas this (lambdaPrefixId props) (lambdaPackage props) ''create''
                 (table_tableName table') (createRole roles)) (\<lambda>createLambda.
     and_then (createLambdas this (lambdaPrefixId props) (lambdaPackage props) ''update''
                 (table_tableName table') (updateRole roles)) (\<lambda>updateLambda.
     and_then (createLambdas this (lambdaPrefixId props) (lambdaPackage props) ''delete''
                 (table_tableName table') (deleteRole roles)) (\<lambda>deleteLambda.
     and_then (createLambdas this (lambdaPrefixId props) (lambdaPackage props) ''get''
                 (table_tableName table') (getRole roles)) (\<lambda>getLambda.
     succeed \<lparr>priv_table = table',
              priv_getLambda = getLambda,
              priv_updateLambda = updateLambda,
              priv_createLambda = createLambda,
              priv_deleteLambda = deleteLambda\<rparr>)))))) t1 = Inr (crud, t')"
    unfolding CRUDConstruct_new_def and_then_Inr_iff by blast
  from a have this_eq: "this = i # scope" and f0: "i # scope \<notin> fst ` set t"
    and t1: "t1 = t @ [(i # scope, ConstructR)]"
    by (simp_all add: create_node_Inr_iff)
  from r1 obtain tbl t2 where b: "new_Table this (tableId props) (table props) t1 = Inr (tbl, t2)"
    and r2: "and_then (createLambdaRoles this (lambdaPrefixId props) tbl) (\<lambda>roles.
     and_then (createLambdas this (lambdaPrefixId props) (lambdaPackage props) ''create''
                 (table_tableName tbl) (createRole roles)) (\<lambda>createLambda.
     and_then (createLambdas this (lambdaPrefixId props) (lambdaPackage props) ''update''
                 (table_tableName tbl) (updateRole roles)) (\<lambda>updateLambda.
     and_then (createLambdas this (lambdaPrefixId props) (lambdaPackage props) ''delete''
                 (table_tableName tbl) (deleteRole roles)) (\<lambda>deleteLambda.
     and_then (createLambdas this (lambdaPrefixId props) (lambdaPackage props) ''get''
                 (table_tableName tbl) (getRole roles)) (\<lambda>getLambda.
     succeed \<lparr>priv_table = tbl,
              priv_getLambda = getLambda,
              priv_updateLambda = updateLambda,
              priv_createLambda = createLambda,
              priv_deleteLambda = deleteLambda\<rparr>))))) t2 = Inr (crud, t')"
    unfolding and_then_Inr_iff by blast
  from b have tbl: "tbl = tableId props # this" and f1: "tbl \<notin> fst ` set t1"
    and t2: "t2 = t1 @ [(tbl, TableR (table props))]"
    by (simp_all add: new_Table_def create_node_Inr_iff)
  have tb: "map_of t2 tbl = Some (TableR (table props))"
    unfolding t2 using f1 by (rule map_of_append_fresh)
  from r2 obtain roles t3
    where c: "createLambdaRoles this (lambdaPrefixId props) tbl t2 = Inr (roles, t3)"
    and r3: "and_then (createLambdas this (lambdaPrefixId props) (lambdaPackage props) ''create''
                 (table_tableName tbl) (createRole roles)) (\<lambda>createLambda.
     and_then (createLambdas this (lambdaPrefixId props) (lambdaPackage props) ''update''
                 (table_tableName tbl) (updateRole roles)) (\<lambda>updateLambda.
     and_then (createLambdas this (lambdaPrefixId props) (lambdaPackage props) ''delete''
                 (table_tableName tbl) (deleteRole roles)) (\<lambda>deleteLambda.
     and_then (createLambdas this (lambdaPrefixId props) (lambdaPackage props) ''get''
                 (table_tableName tbl) (getRole roles)) (\<lambda>getLambda.
     succeed \<lparr>priv_table = tbl,
              priv_getLambda = getLambda,
              priv_updateLambda = updateLambda,
              priv_createLambda = createLambda,
              priv_deleteLambda = deleteLambda\<rparr>)))) t3 = Inr (crud, t')"
    unfolding and_then_Inr_iff by blast
  note roles = createLambdaRoles_tree [OF tb c]
  from r3 have fns: "t' = t3 @
      [((''create-'' @ lambdaPrefixId props) # this, FunctionR (lambda_function_props
          (lambdaPrefixId props) (lambdaPackage props) ''create'' (table_tableName tbl) (createRole roles))),
       ((''update-'' @ lambdaPrefixId props) # this, FunctionR (lambda_function_props
          (lambdaPrefixId props) (lambdaPackage props) ''update'' (table_tableName tbl) (updateRole roles))),
       ((''delete-'' @ lambdaPrefixId props) # this, FunctionR (lambda_function_props
          (lambdaPrefixId props) (lambdaPackage props) ''delete'' (table_tableName tbl) (deleteRole roles))),
       ((''get-'' @ lambdaPrefixId props) # this, FunctionR (lambda_function_props
          (lambdaPrefixId props) (lambdaPackage props) ''get'' (table_tableName tbl) (getRole roles)))]"
    and h: "crud = \<lparr>priv_table = tbl,
                 priv_getLambda = (''get-'' @ lambdaPrefixId props) # this,
                 priv_updateLambda = (''update-'' @ lambdaPrefixId props) # this,
                 priv_createLambda = (''create-'' @ lambdaPrefixId props) # this,
                 priv_deleteLambda = (''delete-'' @ lambdaPrefixId props) # this\<rparr>"
    and f3: "(''create-'' @ lambdaPrefixId props) # this \<notin> fst ` set t3"
       "(''update-'' @ lambdaPrefixId props) # this \<notin> fst ` set t3"
       "(''delete-'' @ lambdaPrefixId props) # this \<notin> fst ` set t3"
       "(''get-'' @ lambdaPrefixId props) # this \<notin> fst ` set t3"
    by (auto simp: and_then_Inr_iff createLambdas_def new_Function_def create_node_Inr_iff
        succeed_def)
  show "t' = t @ crud_nodes (i # scope) props"
    unfolding fns roles(1) roles(2) t2 t1 tbl this_eq by (simp add: crud_nodes_def Let_def)
  show "crud = \<lparr>priv_table = tableId props # i # scope,
                 priv_getLambda = (''get-'' @ lambdaPrefixId props) # i # scope,
                 priv_updateLambda = (''update-'' @ lambdaPrefixId props) # i # scope,
                 priv_createLambda = (''create-'' @ lambdaPrefixId props) # i # scope,
                 priv_deleteLambda = (''delete-'' @ lambdaPrefixId props) # i # scope\<rparr>"
    unfolding h tbl this_eq ..
  from f0 f1 roles(3-6) f3 show "fst ` set (crud_nodes (i # scope) props) \<inter> fst ` set t = {}"
    unfolding roles(1) t2 t1 tbl this_eq by (simp add: crud_nodes_def Let_def)
qed

lemmas build_defs = StaticWebsiteStack_new_def and_then_def succeed_def create_node_def
  HostedZone_fromLookup_def new_Certificate_def ApiGatewayLambdaConstruct_new_def new_RestApi_def
  CRUDConstruct_new_def new_Table_def createLambdaRoles_def new_Role_def grantReadData_def
  grantWriteData_def grant_def supported_capabilities_def is_role_def update_node_def
  attach_policy_def statements_for_def createLambdas_def new_Function_def lambdaApis_def
  addLambdaIntegration_def resourceForPath_addMethod_def add_method_def new_Bucket_def
  new_OriginAccessIdentity_def new_CloudFrontWebDistribution_def new_ARecord_def
  GetLambda_def CreateLambda_def UpdateLambda_def DeleteLambda_def

lemma stack_run:
  \<open>\<exists>t. StaticWebsiteStack_new [] i [] = Inr ([i], t) \<and>
     api_methods t [''static-website-api'', ''RestApiG8WayLambda'', i] =
       [(''/api/getTodos'', GET,
           \<lparr>integration_handler = [''get-todos'', ''TODOS-CRUD'', i],
            requestTemplates = [(''application/json'', ''{"statusCode": "200"'')]\<rparr>),
        (''/api/createTodo'', POST,
           \<lparr>integration_handler = [''create-todos'', ''TODOS-CRUD'', i],
            requestTemplates = [(''application/json'', ''{"statusCode": "200"'')]\<rparr>),
        (''/api/updateTodo'', PUT,
           \<lparr>integration_handler = [''update-todos'', ''TODOS-CRUD'', i],
            requestTemplates = [(''application/json'', ''{"statusCode": "200"'')]\<rparr>),
        (''/api/deleteTodo'', DELETE,
           \<lparr>integration_handler = [''delete-todos'', ''TODOS-CRUD'', i],
            requestTemplates = [(''application/json'', ''{"statusCode": "200"'')]\<rparr>)] \<and>
     map fst (functions_of t) =
       [[''create-todos'', ''TODOS-CRUD'', i], [''update-todos'', ''TODOS-CRUD'', i],
        [''delete-todos'', ''TODOS-CRUD'', i], [''get-todos'', ''TODOS-CRUD'', i]] \<and>
     map_of t [''<enter s3 bucket name>'', i] = Some (BucketR
       \<lparr>versioned = Some False, encryption = S3_MANAGED, blockPublicAccess = BLOCK_ALL,
        bucketName = Some ''<enter s3 bucket name>'', bucket_removalPolicy = DESTROY\<rparr>) \<and>
     distribution_at t [''Static-Website-Distribution'', i] = Some
       \<lparr>originConfigs =
          originsAndBehavior
            \<lparr>priv_apiEndpoint = [''static-website-api'', ''RestApiG8WayLambda'', i],
             priv_urlSuffix = [Attr [i] ''urlSuffix''],
             priv_region = [Attr [i] ''region'']\<rparr>
            [''<enter s3 bucket name>'', i] [''OriginAccessIdentity'', i],
        defaultRootObject = ''index.html'',
        errorConfigurations =
          [\<lparr>errorCode = 404, responseCode = 200, responsePagePath = ''/index.html''\<rparr>,
           \<lparr>errorCode = 403, responseCode = 200, responsePagePath = ''/index.html''\<rparr>],
        viewerProtocolPolicy = REDIRECT_TO_HTTPS,
        dist_comment = ''CloudFront distribution to the static website'',
        viewerCertificate =
          \<lparr>vc_certificate = [''StaticWebsite-Cert'', i],
           aliases = [''<enter domain name>''],
           vc_securityPolicy = TLS_V1_2_2021\<rparr>,
        loggingConfig =
          \<lparr>log_bucket = [''StaticWebsiteLoggingBucket'', i],
           includeCookies = False,
           log_prefix = ''static-website-cf-logs-''\<rparr>\<rparr>\<close>
  by (simp add: build_defs api_methods_def distribution_at_def)

lemma map_of_update_node:
  "map_of (update_node p f t) q = (if q = p then map_option f (map_of t q) else map_of t q)"
  by (induction t) (auto simp: update_node_def)

lemma map_fst_update_node: "map fst (update_node p f t) = map fst t"
  by (induction t) (auto simp: update_node_def)

lemma update_node_twice: "update_node p f (update_node p g t) = update_node p (f \<circ> g) t"
  by (induction t) (auto simp: update_node_def)

lemma update_node_cong: "(\<And>r. f r = g r) \<Longrightarrow> update_node p f t = update_node p g t"
  by (auto simp: update_node_def)

lemma filter_update_node:
  "filter (\<lambda>(q, r). q \<noteq> p) (update_node p f t) = filter (\<lambda>(q, r). q \<noteq> p) t"
  by (induction t) (auto simp: update_node_def)

lemma set_add_statements: "set (add_statements pol ss) = set pol \<union> set ss"
  by (induction ss arbitrary: pol) auto

lemma add_statements_present: "set ss \<subseteq> set pol \<Longrightarrow> add_statements pol ss = pol"
  by (induction ss arbitrary: pol) auto

lemma add_statements_idem: "add_statements (add_statements pol ss) ss = add_statements pol ss"
  by (rule add_statements_present) (simp add: set_add_statements)

lemma attach_policy_idem: "attach_policy ss (attach_policy ss r) = attach_policy ss r"
  by (cases r) (simp_all add: attach_policy_def add_statements_idem)

lemma supported_attach_policy:
  "supported_capabilities (attach_policy ss r) = supported_capabilities r"
  by (cases r) (simp_all add: attach_policy_def supported_capabilities_def)

lemma is_role_attach_policy: "is_role (attach_policy ss r) = is_role r"
  by (cases r) (simp_all add: attach_policy_def is_role_def)

lemma grant_Inr_iff:
  "grant s ob caps t = Inr (u, t') \<longleftrightarrow>
     (\<exists>o' r. map_of t ob = Some o' \<and> caps \<subseteq> supported_capabilities o' \<and>
        map_of t s = Some r \<and> is_role r \<and>
        t' = update_node s (attach_policy (statements_for ob caps)) t)"
  by (auto simp: grant_def split: option.splits)

lemma grant_again:
  assumes "grant s ob caps t = Inr ((), t')"
  shows "grant s ob caps t' = Inr ((), t')"
proof -
  from assms obtain o' r where ob: "map_of t ob = Some o'"
    and caps: "caps \<subseteq> supported_capabilities o'"
    and s: "map_of t s = Some r" and r: "is_role r"
    and t': "t' = update_node s (attach_policy (statements_for ob caps)) t"
    by (auto simp: grant_Inr_iff)
  let ?f = "attach_policy (statements_for ob caps)"
  have 1: "map_of t' s = Some (?f r)" by (simp add: t' map_of_update_node s)
  have 2: "\<exists>o''. map_of t' ob = Some o'' \<and> caps \<subseteq> supported_capabilities o''"
    using ob caps by (auto simp: t' map_of_update_node supported_attach_policy)
  have 3: "update_node s ?f t' = t'"
    unfolding t' update_node_twice
    by (rule update_node_cong) (simp add: attach_policy_idem)
  from 1 2 3 r show ?thesis
    by (auto simp: grant_Inr_iff is_role_attach_policy)
qed

lemma grant_twice: "and_then (grant s ob caps) (\<lambda>_. grant s ob caps) t = grant s ob caps t"
proof (cases "grant s ob caps t")
  case (Inl e)
  then show ?thesis by (simp add: and_then_def)
next
  case (Inr r)
  then have "grant s ob caps t = Inr ((), snd r)" by (cases r) simp
  then show ?thesis using grant_again [of s ob caps t "snd r"] by (simp add: and_then_def)
qed

lemma grant_object_unchanged:
  assumes "grant s ob caps t = Inr ((), t')"
  shows "map_of t' ob = map_of t ob"
proof (cases "ob = s")
  case False
  with assms show ?thesis by (auto simp: grant_Inr_iff map_of_update_node)
next
  case True
  from assms obtain r where s: "map_of t s = Some r" and r: "is_role r"
    and caps: "caps \<subseteq> supported_capabilities r"
    and t': "t' = update_node s (attach_policy (statements_for ob caps)) t"
    using True by (auto simp: grant_Inr_iff)
  from r caps have "caps = {}"
    by (cases r) (simp_all add: is_role_def supported_capabilities_def)
  then have "statements_for ob caps = []" by (simp add: statements_for_def)
  then have "attach_policy (statements_for ob caps) r = r"
    by (cases r) (simp_all add: attach_policy_def)
  then show ?thesis using True s by (simp add: t' map_of_update_node)
qed

lemma functions_of_append: "functions_of (t @ d) = functions_of t @ functions_of d"
  by (induction t rule: functions_of.induct) simp_all

lemma roles_of_append: "roles_of (t @ d) = roles_of t @ roles_of d"
  by (induction t rule: roles_of.induct) simp_all

lemma grants_of_append: "grants_of (t @ d) = grants_of t @ grants_of d"
  by (induction t rule: grants_of.induct) simp_all

lemma map_of_append_new:
  "q \<notin> fst ` set t \<Longrightarrow> map_of (t @ d) q = map_of d q"
proof -
  assume "q \<notin> fst ` set t"
  then have "map_of t q = None" by (simp add: map_of_eq_None_iff)
  then show ?thesis by (simp add: map_add_def)
qed
















lemma assembled_eq: "StaticWebsiteStack_new [] i [] = Inr (x, t) \<Longrightarrow> assembled i = t"
  by (simp add: assembled_def materialized_def)

lemma example_crud_run:
  "\<exists>crud t'. CRUDConstruct_new [] ''TODOS-CRUD'' example_crud_props [] = Inr (crud, t')"
  by (simp add: build_defs example_crud_props_def)

lemma stack_distribution:
  "distribution_at (assembled i) [''Static-Website-Distribution'', i] = Some
       \<lparr>originConfigs =
          originsAndBehavior
            \<lparr>priv_apiEndpoint = [''static-website-api'', ''RestApiG8WayLambda'', i],
             priv_urlSuffix = [Attr [i] ''urlSuffix''],
             priv_region = [Attr [i] ''region'']\<rparr>
            [''<enter s3 bucket name>'', i] [''OriginAccessIdentity'', i],
        defaultRootObject = ''index.html'',
        errorConfigurations =
          [\<lparr>errorCode = 404, responseCode = 200, responsePagePath = ''/index.html''\<rparr>,
           \<lparr>errorCode = 403, responseCode = 200, responsePagePath = ''/index.html''\<rparr>],
        viewerProtocolPolicy = REDIRECT_TO_HTTPS,
        dist_comment = ''CloudFront distribution to the static website'',
        viewerCertificate =
          \<lparr>vc_certificate = [''StaticWebsite-Cert'', i],
           aliases = [''<enter domain name>''],
           vc_securityPolicy = TLS_V1_2_2021\<rparr>,
        loggingConfig =
          \<lparr>log_bucket = [''StaticWebsiteLoggingBucket'', i],
           includeCookies = False,
           log_prefix = ''static-website-cf-logs-''\<rparr>\<rparr>"
proof -
  from stack_run [of i] obtain t
    where run: "StaticWebsiteStack_new [] i [] = Inr ([i], t)"
      and d: "distribution_at t [''Static-Website-Distribution'', i] = Some
       \<lparr>originConfigs =
          originsAndBehavior
            \<lparr>priv_apiEndpoint = [''static-website-api'', ''RestApiG8WayLambda'', i],
             priv_urlSuffix = [Attr [i] ''urlSuffix''],
             priv_region = [Attr [i] ''region'']\<rparr>
            [''<enter s3 bucket name>'', i] [''OriginAccessIdentity'', i],
        defaultRootObject = ''index.html'',
        errorConfigurations =
          [\<lparr>errorCode = 404, responseCode = 200, responsePagePath = ''/index.html''\<rparr>,
           \<lparr>errorCode = 403, responseCode = 200, responsePagePath = ''/index.html''\<rparr>],
        viewerProtocolPolicy = REDIRECT_TO_HTTPS,
        dist_comment = ''CloudFront distribution to the static website'',
        viewerCertificate =
          \<lparr>vc_certificate = [''StaticWebsite-Cert'', i],
           aliases = [''<enter domain name>''],
           vc_securityPolicy = TLS_V1_2_2021\<rparr>,
        loggingConfig =
          \<lparr>log_bucket = [''StaticWebsiteLoggingBucket'', i],
           includeCookies = False,
           log_prefix = ''static-website-cf-logs-''\<rparr>\<rparr>"
    by auto
  show ?thesis unfolding assembled_eq [OF run] by (rule d)
qed

lemma stack_gateway_and_bucket:
  "length (api_methods (assembled i) [''static-website-api'', ''RestApiG8WayLambda'', i]) = 4
   \<and> map_of (assembled i) [''<enter s3 bucket name>'', i] = Some (BucketR
       \<lparr>versioned = Some False, encryption = S3_MANAGED, blockPublicAccess = BLOCK_ALL,
        bucketName = Some ''<enter s3 bucket name>'', bucket_removalPolicy = DESTROY\<rparr>)"
proof -
  from stack_run [of i] obtain t
    where run: "StaticWebsiteStack_new [] i [] = Inr ([i], t)"
      and ms: "length (api_methods t [''static-website-api'', ''RestApiG8WayLambda'', i]) = 4"
      and b: "map_of t [''<enter s3 bucket name>'', i] = Some (BucketR
       \<lparr>versioned = Some False, encryption = S3_MANAGED, blockPublicAccess = BLOCK_ALL,
        bucketName = Some ''<enter s3 bucket name>'', bucket_removalPolicy = DESTROY\<rparr>)"
    by auto
  show ?thesis unfolding assembled_eq [OF run] using ms b by simp
qed

lemma set_insert_binding: "set (insert_binding x xs) = insert x (set xs)"
  by (induction xs) auto

lemma set_sort_bindings: "set (sort_bindings xs) = set xs"
  by (induction xs) (simp_all add: set_insert_binding)

lemma compose_Inr:
  assumes "compose bindings = Inr tbl"
  shows "\<exists>d. filter is_default bindings = [d]
           \<and> tbl = sort_bindings (filter (\<lambda>b. \<not> is_default b) bindings) @ [d]"
proof (cases "filter is_default bindings")
  case Nil
  with assms show ?thesis by (simp add: compose_def)
next
  case (Cons d ds)
  show ?thesis
  proof (cases ds)
    case Nil
    with Cons assms show ?thesis
      by (simp add: compose_def split: if_splits)
  next
    case (Cons d' ds')
    with \<open>filter is_default bindings = d # ds\<close> assms show ?thesis
      by (simp add: compose_def)
  qed
qed

lemma sort_bindings_specific:
  "list_all (\<lambda>b. \<not> is_default b) (sort_bindings (filter (\<lambda>b. \<not> is_default b) bindings))"
  unfolding list_all_iff set_sort_bindings by simp

lemma filter_default_specific:
  "filter is_default (sort_bindings (filter (\<lambda>b. \<not> is_default b) bindings)) = []"
  unfolding filter_empty_conv set_sort_bindings by simp

lemma compose_table:
  assumes "compose bindings = Inr tbl"
  shows "\<exists>specific d. tbl = specific @ [d] \<and> is_default d
           \<and> list_all (\<lambda>b. \<not> is_default b) specific"
    and "length (filter is_default tbl) = 1"
    and "set tbl = set bindings"
proof -
  from compose_Inr [OF assms] obtain d where d: "filter is_default bindings = [d]"
    and tbl: "tbl = sort_bindings (filter (\<lambda>b. \<not> is_default b) bindings) @ [d]"
    by (elim exE conjE)
  have "d \<in> set (filter is_default bindings)" unfolding d by simp
  then have dd: "is_default d" by simp
  have "tbl = sort_bindings (filter (\<lambda>b. \<not> is_default b) bindings) @ [d] \<and> is_default d
      \<and> list_all (\<lambda>b. \<not> is_default b)
           (sort_bindings (filter (\<lambda>b. \<not> is_default b) bindings))"
    using tbl dd sort_bindings_specific by (intro conjI)
  then have "\<exists>d. tbl = sort_bindings (filter (\<lambda>b. \<not> is_default b) bindings) @ [d]
      \<and> is_default d
      \<and> list_all (\<lambda>b. \<not> is_default b)
           (sort_bindings (filter (\<lambda>b. \<not> is_default b) bindings))"
    by (rule exI)
  then show "\<exists>specific d. tbl = specific @ [d] \<and> is_default d
           \<and> list_all (\<lambda>b. \<not> is_default b) specific"
    by (rule exI)
  show "length (filter is_default tbl) = 1"
    unfolding tbl using dd by (simp add: filter_default_specific)
  have "set (filter is_default bindings) = set [d]" by (simp only: d)
  then have B: "{b \<in> set bindings. is_default b} = {d}" by simp
  have "set tbl = {b \<in> set bindings. \<not> is_default b} \<union> {d}"
    unfolding tbl by (simp add: set_sort_bindings)
  also have "\<dots> = {b \<in> set bindings. \<not> is_default b} \<union> {b \<in> set bindings. is_default b}"
    by (simp only: B)
  also have "\<dots> = set bindings" by blast
  finally show "set tbl = set bindings" .
qed

section \<open>The claims\<close>

text \<open>
  C1. For the four operations, a successful construction of the CRUD construct adds four
  functions, each bound to a role of its own that did not exist before (the four roles
  are pairwise distinct), and attaches exactly four policy statements, all on the
  construct's table: Read to the role of get, Write to the roles of create, update and
  delete, each statement on that operation's own role only. Nothing that existed before
  is changed.
\<close>

theorem crud_roles_and_grants:
  assumes "CRUDConstruct_new scope i props t = Inr (crud, t')"
  shows "(let this = i # scope;
              pfx = lambdaPrefixId props;
              getR = (''Get'' @ pfx @ ''-Role'') # this;
              createR = (''Create'' @ pfx @ ''-Role'') # this;
              updateR = (''Update'' @ pfx @ ''-Role'') # this;
              deleteR = (''Delete'' @ pfx @ ''-Role'') # this
          in map (\<lambda>(p, f). (p, role f)) (functions_of t') =
               map (\<lambda>(p, f). (p, role f)) (functions_of t) @
               [(CreateLambda crud, createR), (UpdateLambda crud, updateR),
                (DeleteLambda crud, deleteR), (GetLambda crud, getR)]
           \<and> distinct [CreateLambda crud, UpdateLambda crud, DeleteLambda crud, GetLambda crud]
           \<and> roles_of t' = roles_of t @ [getR, createR, updateR, deleteR]
           \<and> distinct [getR, createR, updateR, deleteR]
           \<and> set [getR, createR, updateR, deleteR] \<inter> fst ` set t = {}
           \<and> grants_of t' = grants_of t @
               [(getR, priv_table crud, Read), (createR, priv_table crud, Write),
                (updateR, priv_table crud, Write), (deleteR, priv_table crud, Write)]
           \<and> map_of t' (priv_table crud) = Some (TableR (table props)))"
proof -
  note T = CRUDConstruct_new_tree [OF assms]
  from T(3) have fresh: "tableId props # i # scope \<notin> fst ` set t"
    "(''Get'' @ lambdaPrefixId props @ ''-Role'') # i # scope \<notin> fst ` set t"
    "(''Create'' @ lambdaPrefixId props @ ''-Role'') # i # scope \<notin> fst ` set t"
    "(''Update'' @ lambdaPrefixId props @ ''-Role'') # i # scope \<notin> fst ` set t"
    "(''Delete'' @ lambdaPrefixId props @ ''-Role'') # i # scope \<notin> fst ` set t"
    by (simp_all add: crud_nodes_def Let_def)
  have tbl: "map_of t' (tableId props # i # scope) = Some (TableR (table props))"
    unfolding T(1) map_of_append_new [OF fresh(1)] by (simp add: crud_nodes_def Let_def)
  have fns: "map (\<lambda>(p, f). (p, role f)) (functions_of (crud_nodes (i # scope) props)) =
      [((''create-'' @ lambdaPrefixId props) # i # scope,
          (''Create'' @ lambdaPrefixId props @ ''-Role'') # i # scope),
       ((''update-'' @ lambdaPrefixId props) # i # scope,
          (''Update'' @ lambdaPrefixId props @ ''-Role'') # i # scope),
       ((''delete-'' @ lambdaPrefixId props) # i # scope,
          (''Delete'' @ lambdaPrefixId props @ ''-Role'') # i # scope),
       ((''get-'' @ lambdaPrefixId props) # i # scope,
          (''Get'' @ lambdaPrefixId props @ ''-Role'') # i # scope)]"
    by (simp add: crud_nodes_def Let_def lambda_function_props_def)
  have rls: "roles_of (crud_nodes (i # scope) props) =
      [(''Get'' @ lambdaPrefixId props @ ''-Role'') # i # scope,
       (''Create'' @ lambdaPrefixId props @ ''-Role'') # i # scope,
       (''Update'' @ lambdaPrefixId props @ ''-Role'') # i # scope,
       (''Delete'' @ lambdaPrefixId props @ ''-Role'') # i # scope]"
    by (simp add: crud_nodes_def Let_def)
  have grs: "grants_of (crud_nodes (i # scope) props) =
      [((''Get'' @ lambdaPrefixId props @ ''-Role'') # i # scope, tableId props # i # scope, Read),
       ((''Create'' @ lambdaPrefixId props @ ''-Role'') # i # scope, tableId props # i # scope, Write),
       ((''Update'' @ lambdaPrefixId props @ ''-Role'') # i # scope, tableId props # i # scope, Write),
       ((''Delete'' @ lambdaPrefixId props @ ''-Role'') # i # scope, tableId props # i # scope, Write)]"
    by (simp add: crud_nodes_def Let_def)
  have crud: "CreateLambda crud = (''create-'' @ lambdaPrefixId props) # i # scope"
    "UpdateLambda crud = (''update-'' @ lambdaPrefixId props) # i # scope"
    "DeleteLambda crud = (''delete-'' @ lambdaPrefixId props) # i # scope"
    "GetLambda crud = (''get-'' @ lambdaPrefixId props) # i # scope"
    "priv_table crud = tableId props # i # scope"
    by (simp_all add: T(2) CreateLambda_def UpdateLambda_def DeleteLambda_def GetLambda_def)
  show ?thesis
    unfolding Let_def crud
    using fresh tbl
    by (simp add: T(1) functions_of_append roles_of_append grants_of_append fns rls grs)
qed

theorem crud_roles_and_grants_witness:
  "grants_of (materialized (CRUDConstruct_new [] ''TODOS-CRUD'' example_crud_props [])) =
     [([''Gettodos-Role'', ''TODOS-CRUD''], [''Todos-Table'', ''TODOS-CRUD''], Read),
      ([''Createtodos-Role'', ''TODOS-CRUD''], [''Todos-Table'', ''TODOS-CRUD''], Write),
      ([''Updatetodos-Role'', ''TODOS-CRUD''], [''Todos-Table'', ''TODOS-CRUD''], Write),
      ([''Deletetodos-Role'', ''TODOS-CRUD''], [''Todos-Table'', ''TODOS-CRUD''], Write)]
   \<and> map (\<lambda>(p, f). (p, role f))
        (functions_of (materialized (CRUDConstruct_new [] ''TODOS-CRUD'' example_crud_props []))) =
     [([''create-todos'', ''TODOS-CRUD''], [''Createtodos-Role'', ''TODOS-CRUD'']),
      ([''update-todos'', ''TODOS-CRUD''], [''Updatetodos-Role'', ''TODOS-CRUD'']),
      ([''delete-todos'', ''TODOS-CRUD''], [''Deletetodos-Role'', ''TODOS-CRUD'']),
      ([''get-todos'', ''TODOS-CRUD''], [''Gettodos-Role'', ''TODOS-CRUD''])]"
proof -
  from example_crud_run obtain crud t'
    where run: "CRUDConstruct_new [] ''TODOS-CRUD'' example_crud_props [] = Inr (crud, t')"
    by blast
  note T = CRUDConstruct_new_tree(2) [OF run]
  have M: "materialized (CRUDConstruct_new [] ''TODOS-CRUD'' example_crud_props []) = t'"
    by (simp add: run materialized_def)
  from crud_roles_and_grants [OF run] show ?thesis
    unfolding M
    by (simp add: Let_def T example_crud_props_def CreateLambda_def
        UpdateLambda_def DeleteLambda_def GetLambda_def)
qed

text \<open>
  C2, as the spec states it: the gateway of the assembled stack has exactly the four
  registered paths /api/get, /api/create, /api/update and /api/delete. This fails: the
  stack registers each function under the name it gives it in \<open>lambdaApis\<close>.
\<close>

theorem gateway_paths_counterexample:
  "set (map fst (api_methods (assembled ''StaticWebsiteStack'')
       [''static-website-api'', ''RestApiG8WayLambda'', ''StaticWebsiteStack'']))
     \<noteq> {''/api/get'', ''/api/create'', ''/api/update'', ''/api/delete''}"
proof
  from stack_run [of "''StaticWebsiteStack''"] obtain t
    where run: "StaticWebsiteStack_new [] ''StaticWebsiteStack'' [] = Inr ([''StaticWebsiteStack''], t)"
      and ms: "map fst (api_methods t
         [''static-website-api'', ''RestApiG8WayLambda'', ''StaticWebsiteStack'']) =
         [''/api/getTodos'', ''/api/createTodo'', ''/api/updateTodo'', ''/api/deleteTodo'']"
    by auto
  assume "set (map fst (api_methods (assembled ''StaticWebsiteStack'')
       [''static-website-api'', ''RestApiG8WayLambda'', ''StaticWebsiteStack'']))
     = {''/api/get'', ''/api/create'', ''/api/update'', ''/api/delete''}"
  then have "''/api/get'' \<in> set (map fst (api_methods (assembled ''StaticWebsiteStack'')
       [''static-website-api'', ''RestApiG8WayLambda'', ''StaticWebsiteStack'']))"
    by blast
  then show False
    unfolding assembled_eq [OF run] ms by simp
qed

text \<open>
  C2, amended: for each of the four functions of the CRUD construct the gateway registers
  the path \<open>/api/<name>\<close> with the HTTP method of its entry in \<open>lambdaApis\<close>, where the name
  is the one the stack gives the entry (getTodos, createTodo, updateTodo, deleteTodo), not
  the operation name. In the assembled stack the gateway has exactly the four methods
  GET /api/getTodos, POST /api/createTodo, PUT /api/updateTodo and DELETE /api/deleteTodo,
  integrated with the get, create, update and delete function, and these are all the
  functions of the stack.
\<close>

theorem gateway_registered_paths:
  "map (\<lambda>(p, m, g). (p, m, integration_handler g))
     (api_methods (assembled i) [''static-website-api'', ''RestApiG8WayLambda'', i]) =
     [(''/api/getTodos'', GET, [''get-todos'', ''TODOS-CRUD'', i]),
      (''/api/createTodo'', POST, [''create-todos'', ''TODOS-CRUD'', i]),
      (''/api/updateTodo'', PUT, [''update-todos'', ''TODOS-CRUD'', i]),
      (''/api/deleteTodo'', DELETE, [''delete-todos'', ''TODOS-CRUD'', i])]
   \<and> map fst (functions_of (assembled i)) =
     [[''create-todos'', ''TODOS-CRUD'', i], [''update-todos'', ''TODOS-CRUD'', i],
      [''delete-todos'', ''TODOS-CRUD'', i], [''get-todos'', ''TODOS-CRUD'', i]]"
proof -
  from stack_run [of i] obtain t
    where run: "StaticWebsiteStack_new [] i [] = Inr ([i], t)"
      and ms: \<open>api_methods t [''static-website-api'', ''RestApiG8WayLambda'', i] =
       [(''/api/getTodos'', GET,
           \<lparr>integration_handler = [''get-todos'', ''TODOS-CRUD'', i],
            requestTemplates = [(''application/json'', ''{"statusCode": "200"'')]\<rparr>),
        (''/api/createTodo'', POST,
           \<lparr>integration_handler = [''create-todos'', ''TODOS-CRUD'', i],
            requestTemplates = [(''application/json'', ''{"statusCode": "200"'')]\<rparr>),
        (''/api/updateTodo'', PUT,
           \<lparr>integration_handler = [''update-todos'', ''TODOS-CRUD'', i],
            requestTemplates = [(''application/json'', ''{"statusCode": "200"'')]\<rparr>),
        (''/api/deleteTodo'', DELETE,
           \<lparr>integration_handler = [''delete-todos'', ''TODOS-CRUD'', i],
            requestTemplates = [(''application/json'', ''{"statusCode": "200"'')]\<rparr>)]\<close>
      and fs: "map fst (functions_of t) =
       [[''create-todos'', ''TODOS-CRUD'', i], [''update-todos'', ''TODOS-CRUD'', i],
        [''delete-todos'', ''TODOS-CRUD'', i], [''get-todos'', ''TODOS-CRUD'', i]]"
    by auto
  show ?thesis
    unfolding assembled_eq [OF run] ms fs by simp
qed

text \<open>
  C3. A composed routing table contains exactly one binding marked default, and every
  binding that is not default comes before it. In the assembled stack the bindings of the
  distribution compose to themselves, also when they are handed over in reverse: the table
  is the two-entry sequence of the \<open>/api/*\<close> binding, whose origin is the endpoint and the stage
  of the gateway's REST API, and then the default binding, whose origin is the storage
  bucket.
\<close>

theorem routing_table_order:
  "(compose bindings = Inr composed \<longrightarrow>
      (\<exists>specific d. composed = specific @ [d] \<and> is_default d
         \<and> list_all (\<lambda>b. \<not> is_default b) specific)
      \<and> length (filter is_default composed) = 1
      \<and> set composed = set bindings)
   \<and> (let tbl = distribution_routing_table (assembled i) [''Static-Website-Distribution'', i];
           api = [''static-website-api'', ''RestApiG8WayLambda'', i];
           staticAssetsBucket = [''<enter s3 bucket name>'', i]
       in compose tbl = Inr tbl
          \<and> compose (rev tbl) = Inr tbl
          \<and> map (\<lambda>(origin, b). (origin, pathPattern b, isDefaultBehavior b)) tbl =
              [(CustomOriginSource
                  [Attr api ''restApiId'', Lit ''.execute-api.'', Attr [i] ''region'', Lit ''.'',
                   Attr [i] ''urlSuffix'']
                  [Lit ''/'', Attr api ''deploymentStage.stageName'']
                  HTTPS_ONLY,
                Some ''/api/*'', None),
               (S3OriginSource staticAssetsBucket [''OriginAccessIdentity'', i], None, Some True)]
          \<and> length tbl = 2
          \<and> map is_default tbl = [False, True]
          \<and> length (filter is_default tbl) = 1
          \<and> filter (\<lambda>b. \<not> is_default b) tbl @ filter is_default tbl = tbl
          \<and> length (api_methods (assembled i) api) = 4
          \<and> map_of (assembled i) staticAssetsBucket = Some (BucketR
               \<lparr>versioned = Some False, encryption = S3_MANAGED, blockPublicAccess = BLOCK_ALL,
                bucketName = Some ''<enter s3 bucket name>'', bucket_removalPolicy = DESTROY\<rparr>))"
proof (intro conjI impI)
  assume c: "compose bindings = Inr composed"
  from compose_table(1) [OF c]
  show "\<exists>specific d. composed = specific @ [d] \<and> is_default d
         \<and> list_all (\<lambda>b. \<not> is_default b) specific" .
  from compose_table(2) [OF c] show "length (filter is_default composed) = 1" .
  from compose_table(3) [OF c] show "set composed = set bindings" .
next
  show "let tbl = distribution_routing_table (assembled i) [''Static-Website-Distribution'', i];
           api = [''static-website-api'', ''RestApiG8WayLambda'', i];
           staticAssetsBucket = [''<enter s3 bucket name>'', i]
       in compose tbl = Inr tbl
          \<and> compose (rev tbl) = Inr tbl
          \<and> map (\<lambda>(origin, b). (origin, pathPattern b, isDefaultBehavior b)) tbl =
              [(CustomOriginSource
                  [Attr api ''restApiId'', Lit ''.execute-api.'', Attr [i] ''region'', Lit ''.'',
                   Attr [i] ''urlSuffix'']
                  [Lit ''/'', Attr api ''deploymentStage.stageName'']
                  HTTPS_ONLY,
                Some ''/api/*'', None),
               (S3OriginSource staticAssetsBucket [''OriginAccessIdentity'', i], None, Some True)]
          \<and> length tbl = 2
          \<and> map is_default tbl = [False, True]
          \<and> length (filter is_default tbl) = 1
          \<and> filter (\<lambda>b. \<not> is_default b) tbl @ filter is_default tbl = tbl
          \<and> length (api_methods (assembled i) api) = 4
          \<and> map_of (assembled i) staticAssetsBucket = Some (BucketR
               \<lparr>versioned = Some False, encryption = S3_MANAGED, blockPublicAccess = BLOCK_ALL,
                bucketName = Some ''<enter s3 bucket name>'', bucket_removalPolicy = DESTROY\<rparr>)"
    using stack_gateway_and_bucket [of i]
    by (simp add: Let_def distribution_routing_table_def stack_distribution routing_table_def
        originsAndBehavior_def is_default_def ApiEndpoint_def StageName_def compose_def
        cached_set_def allowed_set_def)
qed

theorem routing_table_order_witness:
  "compose example_bindings =
     Inr [example_bindings ! 2, example_bindings ! 1, example_bindings ! 0]
   \<and> map is_default [example_bindings ! 2, example_bindings ! 1, example_bindings ! 0] =
       [False, False, True]
   \<and> length (filter is_default
         [example_bindings ! 2, example_bindings ! 1, example_bindings ! 0]) = 1"
proof -
  have c: "compose example_bindings =
      Inr [example_bindings ! 2, example_bindings ! 1, example_bindings ! 0]"
    by (simp add: compose_def example_bindings_def is_default_def cached_set_def
        allowed_set_def more_specific_def pattern_of_def)
  from routing_table_order [of example_bindings
      "[example_bindings ! 2, example_bindings ! 1, example_bindings ! 0]" "''StaticWebsiteStack''"]
  have "length (filter is_default
      [example_bindings ! 2, example_bindings ! 1, example_bindings ! 0]) = 1"
    using c by blast
  moreover have "map is_default
      [example_bindings ! 2, example_bindings ! 1, example_bindings ! 0] = [False, False, True]"
    by (simp add: example_bindings_def is_default_def)
  ultimately show ?thesis using c by simp
qed

text \<open>
  C4. In the assembled stack the binding of the storage origin has a defaultTtl of exactly
  3 minutes and a maxTtl of exactly 5 minutes, the binding of the API origin has a
  defaultTtl of exactly 0 minutes (and no maxTtl), and the distribution holds these bindings
  unchanged.
\<close>

theorem routing_table_ttls:
  "(let restApi = \<lparr>priv_apiEndpoint = [''static-website-api'', ''RestApiG8WayLambda'', i],
                   priv_urlSuffix = [Attr [i] ''urlSuffix''],
                   priv_region = [Attr [i] ''region'']\<rparr>;
        bindings = originsAndBehavior restApi [''<enter s3 bucket name>'', i]
                     [''OriginAccessIdentity'', i]
    in map (\<lambda>(origin, b). (origin, defaultTtl b, maxTtl b)) (routing_table bindings) =
         [(CustomOriginSource (ApiEndpoint restApi) ([Lit ''/''] @ StageName restApi) HTTPS_ONLY,
             Some (Duration 0 Minutes), None),
          (S3OriginSource [''<enter s3 bucket name>'', i] [''OriginAccessIdentity'', i],
             Some (Duration 3 Minutes), Some (Duration 5 Minutes))]
       \<and> map_option originConfigs
           (distribution_at (assembled i) [''Static-Website-Distribution'', i]) = Some bindings
       \<and> distribution_routing_table (assembled i) [''Static-Website-Distribution'', i] =
           routing_table bindings)"
  by (simp add: Let_def distribution_routing_table_def stack_distribution routing_table_def
      originsAndBehavior_def Duration_minutes_def)




text \<open>
  C6. Issuing the same grant (subject role, object, capability set) twice gives the same
  result as issuing it once: the same error, or the same tree, hence the same policy on
  the subject, with no statement added a second time. The same holds for the two grants of
  the table that the sources call.
\<close>

theorem grant_idempotent:
  "and_then (grant subject object caps) (\<lambda>_. grant subject object caps) t =
     grant subject object caps t
   \<and> and_then (grantReadData table' grantee) (\<lambda>_. grantReadData table' grantee) t =
       grantReadData table' grantee t
   \<and> and_then (grantWriteData table' grantee) (\<lambda>_. grantWriteData table' grantee) t =
       grantWriteData table' grantee t"
proof (intro conjI)
  show "and_then (grant subject object caps) (\<lambda>_. grant subject object caps) t =
      grant subject object caps t"
    by (rule grant_twice)
  show "and_then (grantReadData table' grantee) (\<lambda>_. grantReadData table' grantee) t =
      grantReadData table' grantee t"
    unfolding grantReadData_def by (rule grant_twice)
  show "and_then (grantWriteData table' grantee) (\<lambda>_. grantWriteData table' grantee) t =
      grantWriteData table' grantee t"
    unfolding grantWriteData_def by (rule grant_twice)
qed

theorem grant_idempotent_witness:
  "grantReadData [''Todos-Table''] [''Gettodos-Role''] example_tree =
     Inr ((), example_tree [1 := ([''Gettodos-Role''],
        RoleR example_role_props [([''Todos-Table''], Read)])])
   \<and> and_then (grantReadData [''Todos-Table''] [''Gettodos-Role''])
        (\<lambda>_. grantReadData [''Todos-Table''] [''Gettodos-Role'']) example_tree =
     Inr ((), example_tree [1 := ([''Gettodos-Role''],
        RoleR example_role_props [([''Todos-Table''], Read)])])"
proof -
  have "grantReadData [''Todos-Table''] [''Gettodos-Role''] example_tree =
     Inr ((), example_tree [1 := ([''Gettodos-Role''],
        RoleR example_role_props [([''Todos-Table''], Read)])])"
    by (simp add: example_tree_def grantReadData_def grant_def supported_capabilities_def
        is_role_def update_node_def attach_policy_def statements_for_def)
  with grant_idempotent [of "[''Gettodos-Role'']" "[''Todos-Table'']" "{Read}" example_tree
      "[''Todos-Table'']" "[''Gettodos-Role'']"]
  show ?thesis by simp
qed

text \<open>
  C7. A grant that succeeds changes nothing but the policy of the subject role: the tree
  keeps its nodes, the object is unchanged, every node other than the subject (so every
  other role and its policy) is unchanged, and the subject is the same role with the
  statements of the grant added to its policy.
\<close>

theorem grant_frame:
  assumes "grant subject object caps t = Inr ((), t')"
  shows "map fst t' = map fst t
       \<and> map_of t' object = map_of t object
       \<and> filter (\<lambda>(p, r). p \<noteq> subject) t' = filter (\<lambda>(p, r). p \<noteq> subject) t
       \<and> (\<exists>rp pol. map_of t subject = Some (RoleR rp pol)
            \<and> map_of t' subject =
                Some (RoleR rp (add_statements pol (statements_for object caps))))"
proof -
  from assms obtain r where s: "map_of t subject = Some r" and r: "is_role r"
    and t': "t' = update_node subject (attach_policy (statements_for object caps)) t"
    by (auto simp: grant_Inr_iff)
  from r obtain rp pol where rr: "r = RoleR rp pol"
    by (cases r) (simp_all add: is_role_def)
  have "map_of t' subject = Some (RoleR rp (add_statements pol (statements_for object caps)))"
    by (simp add: t' map_of_update_node s rr attach_policy_def)
  with s rr grant_object_unchanged [OF assms] show ?thesis
    by (simp add: t' map_fst_update_node filter_update_node)
qed

theorem grant_frame_witness:
  "grant [''Gettodos-Role''] [''Todos-Table''] {Read} example_tree =
     Inr ((), example_tree [1 := ([''Gettodos-Role''],
        RoleR example_role_props [([''Todos-Table''], Read)])])
   \<and> map_of (example_tree [1 := ([''Gettodos-Role''],
        RoleR example_role_props [([''Todos-Table''], Read)])]) [''Todos-Table''] =
       Some (TableR example_table_props)
   \<and> map_of (example_tree [1 := ([''Gettodos-Role''],
        RoleR example_role_props [([''Todos-Table''], Read)])]) [''Createtodos-Role''] =
       Some (RoleR (lambda_role_props ''create-todos-role'') [([''Todos-Table''], Write)])"
proof -
  have g: "grant [''Gettodos-Role''] [''Todos-Table''] {Read} example_tree =
     Inr ((), example_tree [1 := ([''Gettodos-Role''],
        RoleR example_role_props [([''Todos-Table''], Read)])])"
    by (simp add: example_tree_def grant_def supported_capabilities_def
        is_role_def update_node_def attach_policy_def statements_for_def)
  have "map_of example_tree [''Todos-Table''] = Some (TableR example_table_props)"
    by (simp add: example_tree_def)
  moreover have "map_of example_tree [''Createtodos-Role''] =
      Some (RoleR (lambda_role_props ''create-todos-role'') [([''Todos-Table''], Write)])"
    by (simp add: example_tree_def)
  ultimately show ?thesis
    using grant_frame [OF g] g by (simp add: example_tree_def)
qed

text \<open>
  C8. The distribution of the assembled stack carries two error-remapping rules: the
  responses 404 (not found) and 403 (forbidden) are answered with 200 and the fixed
  document /index.html. Its default origin is the storage bucket.
\<close>

theorem distribution_error_remapping:
  "map_option errorConfigurations
     (distribution_at (assembled i) [''Static-Website-Distribution'', i]) =
     Some [\<lparr>errorCode = 404, responseCode = 200, responsePagePath = ''/index.html''\<rparr>,
           \<lparr>errorCode = 403, responseCode = 200, responsePagePath = ''/index.html''\<rparr>]
   \<and> map fst (distribution_routing_table (assembled i) [''Static-Website-Distribution'', i]) ! 1 =
       S3OriginSource [''<enter s3 bucket name>'', i] [''OriginAccessIdentity'', i]"
  by (simp add: stack_distribution distribution_routing_table_def routing_table_def
      originsAndBehavior_def)

text \<open>
  C9. Each of the four functions a CRUD construct creates has the same configuration apart
  from the operation name (and its role): the environment variable TODO_DATABASE set to the
  name of the created table, the runtime Python 3.9, 128 of memory, a timeout of 30
  seconds, the function name \<open><operation>-<lambdaPrefixId>\<close> and the handler
  \<open><lambdaPackage>.<operation>_<lambdaPrefixId>\<close>.
\<close>

theorem crud_lambda_configuration:
  assumes "CRUDConstruct_new scope i props t = Inr (crud, t')"
  shows "map (\<lambda>(p, f). (p, f\<lparr>role := []\<rparr>)) (functions_of t') =
           map (\<lambda>(p, f). (p, f\<lparr>role := []\<rparr>)) (functions_of t) @
           map (\<lambda>operation.
                 ((operation @ ''-'' @ lambdaPrefixId props) # i # scope,
                  \<lparr>role = [],
                   functionName = operation @ ''-'' @ lambdaPrefixId props,
                   code = ''resources'',
                   runtime = PYTHON_3_9,
                   handler = lambdaPackage props @ ''.'' @ operation @ ''_'' @ lambdaPrefixId props,
                   memorySize = 128,
                   timeout = Duration 30 Seconds,
                   environment = [(''TODO_DATABASE'', table_tableName (priv_table crud))]\<rparr>))
             [''create'', ''update'', ''delete'', ''get'']
         \<and> map_of t' (priv_table crud) = Some (TableR (table props))"
proof -
  note T = CRUDConstruct_new_tree [OF assms]
  from T(3) have fresh: "tableId props # i # scope \<notin> fst ` set t"
    by (simp_all add: crud_nodes_def Let_def)
  have tbl: "map_of t' (tableId props # i # scope) = Some (TableR (table props))"
    unfolding T(1) map_of_append_new [OF fresh(1)] by (simp add: crud_nodes_def Let_def)
  have crud: "priv_table crud = tableId props # i # scope"
    by (simp add: T(2))
  show ?thesis
    unfolding crud using tbl
    by (simp add: T(1) functions_of_append crud_nodes_def Let_def lambda_function_props_def
        Duration_seconds_def)
qed

theorem crud_lambda_configuration_witness:
  "map (\<lambda>(p, f). (p, f\<lparr>role := []\<rparr>))
     (functions_of (materialized (CRUDConstruct_new [] ''TODOS-CRUD'' example_crud_props []))) =
      [([''create-todos'', ''TODOS-CRUD''], \<lparr>role = [], functionName = ''create-todos'',
          code = ''resources'', runtime = PYTHON_3_9, handler = ''index.create_todos'',
          memorySize = 128, timeout = Duration 30 Seconds,
          environment = [(''TODO_DATABASE'', [Attr [''Todos-Table'', ''TODOS-CRUD''] ''tableName''])]\<rparr>),
       ([''update-todos'', ''TODOS-CRUD''], \<lparr>role = [], functionName = ''update-todos'',
          code = ''resources'', runtime = PYTHON_3_9, handler = ''index.update_todos'',
          memorySize = 128, timeout = Duration 30 Seconds,
          environment = [(''TODO_DATABASE'', [Attr [''Todos-Table'', ''TODOS-CRUD''] ''tableName''])]\<rparr>),
       ([''delete-todos'', ''TODOS-CRUD''], \<lparr>role = [], functionName = ''delete-todos'',
          code = ''resources'', runtime = PYTHON_3_9, handler = ''index.delete_todos'',
          memorySize = 128, timeout = Duration 30 Seconds,
          environment = [(''TODO_DATABASE'', [Attr [''Todos-Table'', ''TODOS-CRUD''] ''tableName''])]\<rparr>),
       ([''get-todos'', ''TODOS-CRUD''], \<lparr>role = [], functionName = ''get-todos'',
          code = ''resources'', runtime = PYTHON_3_9, handler = ''index.get_todos'',
          memorySize = 128, timeout = Duration 30 Seconds,
          environment = [(''TODO_DATABASE'', [Attr [''Todos-Table'', ''TODOS-CRUD''] ''tableName''])]\<rparr>)]"
proof -
  from example_crud_run obtain crud t'
    where run: "CRUDConstruct_new [] ''TODOS-CRUD'' example_crud_props [] = Inr (crud, t')"
    by blast
  note T = CRUDConstruct_new_tree(2) [OF run]
  have M: "materialized (CRUDConstruct_new [] ''TODOS-CRUD'' example_crud_props []) = t'"
    by (simp add: run materialized_def)
  from crud_lambda_configuration [OF run] show ?thesis
    unfolding M
    by (simp add: T example_crud_props_def table_tableName_def)
qed

text \<open>
  C10. Whatever the name, the function and the HTTP method of a lambda, registering it with
  addLambdaIntegration adds one method whose integration has, for application/json, the
  request template of the source: an opening brace, the key statusCode and the value 200,
  both quoted, and no closing brace.
\<close>

theorem integration_request_template:
  assumes "map_of t (priv_apiEndpoint this) = Some (RestApiR props ms)"
  shows \<open>\<exists>t'. addLambdaIntegration this lambda t = Inr ((), t')
       \<and> api_methods t' (priv_apiEndpoint this) =
           ms @ [(''/api/'' @ api_name lambda, api_type lambda,
                  \<lparr>integration_handler = api_fn lambda,
                   requestTemplates = [(''application/json'', ''{"statusCode": "200"'')]\<rparr>)]
       \<and> map (\<lambda>(p, m, g). requestTemplates g) (api_methods t' (priv_apiEndpoint this)) =
           map (\<lambda>(p, m, g). requestTemplates g) ms
             @ [[(''application/json'', ''{"statusCode": "200"'')]]
       \<and> ''{"statusCode": "200"'' \<noteq> ''{"statusCode": "200"}''\<close>
  using assms
  by (simp add: addLambdaIntegration_def resourceForPath_addMethod_def api_methods_def
      map_of_update_node add_method_def)

theorem integration_request_template_witness:
  \<open>api_methods (materialized (addLambdaIntegration
       \<lparr>priv_apiEndpoint = [''static-website-api''], priv_urlSuffix = [], priv_region = []\<rparr>
       \<lparr>api_name = ''getTodos'', api_fn = [''get-todos''], api_type = GET\<rparr> example_tree))
     [''static-website-api''] =
     [(''/api/getTodos'', GET,
       \<lparr>integration_handler = [''get-todos''],
        requestTemplates = [(''application/json'', ''{"statusCode": "200"'')]\<rparr>)]\<close>
proof -
  have "map_of example_tree (priv_apiEndpoint
       \<lparr>priv_apiEndpoint = [''static-website-api''], priv_urlSuffix = [], priv_region = []\<rparr>) =
     Some (RestApiR example_rest_api_props [])"
    by (simp add: example_tree_def)
  from integration_request_template [OF this,
    of "\<lparr>api_name = ''getTodos'', api_fn = [''get-todos''], api_type = GET\<rparr>"]
  show ?thesis by (auto simp: materialized_def)
qed

end
